theory Spec2Isabelle
  imports Main
begin

section \<open>The toolkit interface, as the constructors use it\<close>

text \<open>
  The repository consists of constructors that call an infrastructure toolkit:
  \<^verbatim>\<open>new K(scope, id, props)\<close> declares a construct of class \<open>K\<close> named \<open>id\<close> under
  \<open>scope\<close>, and methods of the objects so created amend them. The toolkit itself is
  not part of the repository. The model therefore records, for each constructor, the
  sequence of toolkit calls it makes, with the arguments it passes, and takes the
  toolkit's reaction to a call (return or raise) as a parameter.

  A construct object is identified by its path: the ids from the root of the construct
  tree down to it. A variable bound by \<^verbatim>\<open>const x = new K(this, "Id", ...)\<close> denotes the
  path \<open>this @ [''Id'']\<close>.
\<close>

type_synonym path = "string list"

text \<open>
  Argument values. Literals of the source are \<open>Str\<close>, \<open>Num\<close>, \<open>Bool\<close>, \<open>Arr\<close> and
  \<open>Rec\<close>; \<open>Undefined\<close> is an optional argument that is not passed; \<open>Const e m\<close> is the
  toolkit constant \<^verbatim>\<open>e.m\<close> (as \<^verbatim>\<open>RemovalPolicy.DESTROY\<close>); \<open>Obj p\<close> is the construct
  object at path \<open>p\<close> passed as a value; \<open>Member p f\<close> is the member read \<^verbatim>\<open>x.f\<close> of the
  construct object at \<open>p\<close>; \<open>Lib f args\<close> is a value obtained from a toolkit factory
  (as \<^verbatim>\<open>ec2.Peer.ipv4("24.96.0.0/16")\<close> or \<^verbatim>\<open>new ec2.InstanceType("t2.micro")\<close>).
  Member reads stay symbolic: what they evaluate to is decided by the toolkit. Toolkit
  names are written without their namespace (\<^verbatim>\<open>ec2\<close>, \<^verbatim>\<open>iam\<close>, \<^verbatim>\<open>logs\<close>, \<^verbatim>\<open>cdk\<close>).
\<close>

datatype val =
    Str string
  | Num int
  | Bool bool
  | Undefined
  | Const string string
  | Obj path
  | Member path string
  | Arr "val list"
  | Rec "(string \<times> val) list"
  | Lib string "val list"

text \<open>The toolkit classes that the sources instantiate or extend.\<close>

datatype construct_class =
    App | Stack | Construct
  | Vpc | Subnet | CfnRouteTable | CfnSubnetRouteTableAssociation
  | CfnInternetGateway | CfnVPCGatewayAttachment | CfnRoute
  | SecurityGroup | CfnKeyPair | Instance | CfnEIP | CfnEIPAssociation
  | CfnVPCPeeringConnection | Role | LogGroup | FlowLog
  | VpnGateway | VpnConnection | CfnVPNGatewayRoutePropagation | CfnCustomerGateway

text \<open>
  The calls a constructor makes: \<open>NewRoot\<close> is \<^verbatim>\<open>new cdk.App()\<close>; \<open>Super k scope ident props\<close>
  is the \<^verbatim>\<open>super(scope, id, props)\<close> call of a class extending \<open>k\<close>;
  \<open>New k scope ident props\<close> is \<^verbatim>\<open>new k(scope, id, props)\<close>; \<open>Method x m args\<close> is
  \<^verbatim>\<open>x.m(args)\<close> on the construct object at path \<open>x\<close>.
\<close>

datatype call =
    NewRoot construct_class
  | Super construct_class path string val
  | New construct_class path string val
  | Method path string "val list"

datatype error = Error string

text \<open>
  The toolkit, as far as control flow is concerned: given the calls that have returned so
  far and the next call, it either returns (\<open>None\<close>) or raises.
\<close>

type_synonym toolkit = "call list \<Rightarrow> call \<Rightarrow> error option"

text \<open>
  What a run leaves behind: the calls that returned, in order, and the call that raised,
  if one did, with its error. TypeScript keeps every effect of the calls that returned:
  an exception does not roll the construct tree back.
\<close>

record outcome =
  completed :: "call list"
  failed :: "(call \<times> error) option"

text \<open>
  None of the constructors has a \<^verbatim>\<open>try\<close>, a loop or a branch: each is a straight line of
  calls. \<open>run\<close> gives such a line its meaning: the calls are made in program order, and the
  first one that raises ends the run with its error.
\<close>

fun run :: "toolkit \<Rightarrow> call list \<Rightarrow> call list \<Rightarrow> outcome" where
  "run tk [] done = \<lparr>completed = done, failed = None\<rparr>"
| "run tk (c # cs) done =
     (case tk done c of
        Some e \<Rightarrow> \<lparr>completed = done, failed = Some (c, e)\<rparr>
      | None \<Rightarrow> run tk cs (done @ [c]))"

definition attempted :: "outcome \<Rightarrow> call list" where
  "attempted r = completed r @ (case failed r of None \<Rightarrow> [] | Some (c, e) \<Rightarrow> [c])"

text \<open>A toolkit that never raises, and one that raises on the call made after \<open>n\<close> calls have returned.\<close>

definition tk_ok :: toolkit where
  "tk_ok done c = None"

definition tk_fail_at :: "nat \<Rightarrow> error \<Rightarrow> toolkit" where
  "tk_fail_at n e done c = (if length done = n then Some e else None)"

text \<open>
  A toolkit that needs the environment of the stack. A machine image that is looked up
  (\<^verbatim>\<open>NatInstanceImage\<close>, \<^verbatim>\<open>LookupMachineImage\<close>) is resolved against the account and
  region that the stack was given as \<^verbatim>\<open>env\<close> in its props; the declaration of an instance
  with such an image raises when the stack was given none.
\<close>

fun looks_up_image :: "call \<Rightarrow> bool" where
  "looks_up_image (New k scope i (Rec kvs)) =
     (k = Instance \<and>
      (case map_of kvs ''machineImage'' of
         Some (Lib f args) \<Rightarrow> f = ''new NatInstanceImage'' \<or> f = ''new LookupMachineImage''
       | _ \<Rightarrow> False))"
| "looks_up_image c = False"

fun gives_env :: "call \<Rightarrow> bool" where
  "gives_env (Super k scope i (Rec kvs)) = (k = Stack \<and> map_of kvs ''env'' \<noteq> None)"
| "gives_env c = False"

definition tk_lookup :: toolkit where
  "tk_lookup done c =
     (if looks_up_image c \<and> \<not> list_ex gives_env done
      then Some (Error ''no account or region at the stack level'')
      else None)"

text \<open>Props that give a stack an environment.\<close>

definition env_props :: val where
  "env_props = Rec [(''env'', Rec [(''account'', Str ''123456789012''), (''region'', Str ''eu-west-1'')])]"

subsection \<open>Resource declarations\<close>

text \<open>
  A call declares a resource when it constructs one: \<^verbatim>\<open>new K(scope, id, props)\<close> declares
  a \<open>K\<close> named \<open>id\<close> under \<open>scope\<close>, and \<^verbatim>\<open>vpc.addFlowLog(id, options)\<close> declares a flow
  log named \<open>id\<close> under the VPC. The other methods (\<^verbatim>\<open>applyRemovalPolicy\<close>,
  \<^verbatim>\<open>addIngressRule\<close>, \<^verbatim>\<open>addToPolicy\<close>) amend an object that exists.
\<close>

record resource_decl =
  d_class :: construct_class
  d_scope :: path
  d_id :: string
  d_props :: val

fun declares :: "call \<Rightarrow> resource_decl list" where
  "declares (New k scope i props) =
     [\<lparr>d_class = k, d_scope = scope, d_id = i, d_props = props\<rparr>]"
| "declares (Method x m args) =
     (if m = ''addFlowLog'' then
        (case args of
           [Str i, options] \<Rightarrow> [\<lparr>d_class = FlowLog, d_scope = x, d_id = i, d_props = options\<rparr>]
         | _ \<Rightarrow> [])
      else [])"
| "declares (NewRoot k) = []"
| "declares (Super k scope i props) = []"

definition declarations :: "call list \<Rightarrow> resource_decl list" where
  "declarations cs = concat (map declares cs)"

definition prop_of :: "resource_decl \<Rightarrow> string \<Rightarrow> val option" where
  "prop_of d key = (case d_props d of Rec kvs \<Rightarrow> map_of kvs key | _ \<Rightarrow> None)"

definition d_path :: "resource_decl \<Rightarrow> path" where
  "d_path d = d_scope d @ [d_id d]"

abbreviation DESTROY :: val where
  "DESTROY \<equiv> Const ''RemovalPolicy'' ''DESTROY''"

section \<open>src/lib/vpc-pluralsight-stack.ts\<close>

text \<open>
  The class \<open>VpcPluralsightStack\<close> exists in the repository in several revisions. This is
  the one stored under the path that the entry point imports: the public VPC with its
  subnet, routing, security group and instance, and the shared VPC with the database
  subnet, security group and instance. Two shorter revisions
  (\<^verbatim>\<open>src/unnamed/part_001\<close>, \<^verbatim>\<open>src/unnamed/part_002\<close>) stop earlier in the same
  sequence of statements; no property below is about them.
\<close>

definition VpcPluralsightStack_lib_calls :: "path \<Rightarrow> string \<Rightarrow> val \<Rightarrow> call list" where
  "VpcPluralsightStack_lib_calls scope ident props =
    (let this = scope @ [ident];
         publicVpc = this @ [''PublicVpc''];
         publicSubnet = this @ [''PublicSubnet''];
         publicRouteTable = this @ [''PublicRouteTable''];
         publicSubnetRouteTableAssociation = this @ [''PublicRouteTableSubnetAssociation1''];
         publicInternetGateway = this @ [''PublicInternetGateway''];
         publicVpcIgwAttachment = this @ [''PublicVpcIgwAttachment''];
         route = this @ [''PublicInternetAccessRoute''];
         publicSecurityGroup = this @ [''PublicSecurityGroup''];
         sshKeyPair = this @ [''ssh-keypair''];
         publicEc2Instance = this @ [''public-ec2-instance''];
         publicIpv4Address = this @ [''public-elastic-ip''];
         publicElasticIpVpcAssociation = this @ [''public-elastic-ip-network-interface-assc''];
         sharedVpc = this @ [''SharedVpc''];
         databaseSubnet = this @ [''DatabaseSubnet''];
         sharedVpcRouteTable = this @ [''SharedRouteTable''];
         sharedSubnetRouteTableAssociation = this @ [''SharedRouteTableSubnetAssociation''];
         databaseSecurityGroup = this @ [''DatabaseSecurityGroup''];
         databaseEc2Instance = this @ [''database-ec2-instance'']
     in
     [ Super Stack scope ident props,
       New Vpc this ''PublicVpc'' (Rec
         [(''vpcName'', Str ''web-vpc''),
          (''cidr'', Str ''10.1.0.0/16''),
          (''subnetConfiguration'', Arr [])]),
       Method publicVpc ''applyRemovalPolicy'' [DESTROY],
       New Subnet this ''PublicSubnet'' (Rec
         [(''vpcId'', Member publicVpc ''vpcId''),
          (''availabilityZone'', Str ''eu-west-1a''),
          (''cidrBlock'', Str ''10.1.254.0/24'')]),
       Method publicSubnet ''applyRemovalPolicy'' [DESTROY],
       New CfnRouteTable this ''PublicRouteTable'' (Rec
         [(''vpcId'', Member publicVpc ''vpcId'')]),
       Method publicRouteTable ''applyRemovalPolicy'' [DESTROY],
       New CfnSubnetRouteTableAssociation this ''PublicRouteTableSubnetAssociation1'' (Rec
         [(''subnetId'', Member publicSubnet ''subnetId''),
          (''routeTableId'', Member publicRouteTable ''attrRouteTableId'')]),
       Method publicSubnetRouteTableAssociation ''applyRemovalPolicy'' [DESTROY],
       New CfnInternetGateway this ''PublicInternetGateway'' Undefined,
       Method publicInternetGateway ''applyRemovalPolicy'' [DESTROY],
       New CfnVPCGatewayAttachment this ''PublicVpcIgwAttachment'' (Rec
         [(''vpcId'', Member publicVpc ''vpcId''),
          (''internetGatewayId'', Member publicInternetGateway ''attrInternetGatewayId'')]),
       Method publicVpcIgwAttachment ''applyRemovalPolicy'' [DESTROY],
       New CfnRoute this ''PublicInternetAccessRoute'' (Rec
         [(''routeTableId'', Member publicRouteTable ''attrRouteTableId''),
          (''destinationCidrBlock'', Str ''0.0.0.0/0''),
          (''gatewayId'', Member publicInternetGateway ''attrInternetGatewayId'')]),
       Method route ''applyRemovalPolicy'' [DESTROY],
       New SecurityGroup this ''PublicSecurityGroup'' (Rec
         [(''vpc'', Obj publicVpc),
          (''securityGroupName'', Str ''web-pub-sg''),
          (''description'', Str ''Public VPC security group''),
          (''allowAllOutbound'', Bool True)]),
       Method publicSecurityGroup ''applyRemovalPolicy'' [DESTROY],
       Method publicSecurityGroup ''addIngressRule''
         [Lib ''Peer.ipv4'' [Str ''24.96.0.0/16''],
          Lib ''Port.tcp'' [Num 22],
          Str ''SSH access from IP range 24.96.0.0/16''],
       Method publicSecurityGroup ''addIngressRule''
         [Lib ''Peer.anyIpv4'' [],
          Lib ''Port.tcp'' [Num 80],
          Str ''Allow access into this public VPC from any ipv4 address''],
       Method publicSecurityGroup ''addIngressRule''
         [Lib ''Peer.anyIpv6'' [],
          Lib ''Port.tcp'' [Num 80],
          Str ''Allow access into this public VPC from any ipv6 address''],
       New CfnKeyPair this ''ssh-keypair'' (Rec
         [(''keyName'', Str ''public-ssh-key-pair'')]),
       Method sshKeyPair ''applyRemovalPolicy'' [DESTROY],
       New Instance this ''public-ec2-instance'' (Rec
         [(''vpc'', Obj publicVpc),
          (''keyName'', Member sshKeyPair ''keyName''),
          (''vpcSubnets'', Rec [(''subnets'', Arr [Obj publicSubnet])]),
          (''privateIpAddress'', Str ''10.1.254.10''),
          (''instanceType'', Lib ''new InstanceType'' [Str ''t2.micro'']),
          (''machineImage'', Lib ''MachineImage.latestAmazonLinux'' []),
          (''instanceName'', Str ''public-ec2-instance''),
          (''securityGroup'', Obj publicSecurityGroup)]),
       Method publicEc2Instance ''applyRemovalPolicy'' [DESTROY],
       New CfnEIP this ''public-elastic-ip'' Undefined,
       Method publicIpv4Address ''applyRemovalPolicy'' [DESTROY],
       New CfnEIPAssociation this ''public-elastic-ip-network-interface-assc'' (Rec
         [(''instanceId'', Member publicEc2Instance ''instanceId''),
          (''allocationId'', Member publicIpv4Address ''attrAllocationId'')]),
       Method publicElasticIpVpcAssociation ''applyRemovalPolicy'' [DESTROY],
       New Vpc this ''SharedVpc'' (Rec
         [(''vpcName'', Str ''shared-vpc''),
          (''cidr'', Str ''10.2.0.0/16''),
          (''subnetConfiguration'', Arr [])]),
       Method sharedVpc ''applyRemovalPolicy'' [DESTROY],
       New Subnet this ''DatabaseSubnet'' (Rec
         [(''vpcId'', Member sharedVpc ''vpcId''),
          (''availabilityZone'', Str ''eu-west-1a''),
          (''cidrBlock'', Str ''10.2.2.0/24'')]),
       Method databaseSubnet ''applyRemovalPolicy'' [DESTROY],
       New CfnRouteTable this ''SharedRouteTable'' (Rec
         [(''vpcId'', Member sharedVpc ''vpcId'')]),
       Method sharedVpcRouteTable ''applyRemovalPolicy'' [DESTROY],
       New CfnSubnetRouteTableAssociation this ''SharedRouteTableSubnetAssociation'' (Rec
         [(''subnetId'', Member databaseSubnet ''subnetId''),
          (''routeTableId'', Member sharedVpcRouteTable ''attrRouteTableId'')]),
       Method sharedSubnetRouteTableAssociation ''applyRemovalPolicy'' [DESTROY],
       New SecurityGroup this ''DatabaseSecurityGroup'' (Rec
         [(''vpc'', Obj sharedVpc),
          (''securityGroupName'', Str ''database-sg''),
          (''description'', Str ''Database security group''),
          (''allowAllOutbound'', Bool True)]),
       Method databaseSecurityGroup ''applyRemovalPolicy'' [DESTROY],
       Method databaseSecurityGroup ''addIngressRule''
         [Lib ''Peer.ipv4'' [Str ''192.168.0.0/16''],
          Lib ''Port.tcp'' [Num 22],
          Str ''SSH access from IP range 192.168.0.0/16''],
       Method databaseSecurityGroup ''addIngressRule''
         [Lib ''Peer.ipv4'' [Str ''10.2.0.0/16''],
          Lib ''Port.tcp'' [Num 22],
          Str ''SSH access from IP range 10.2.0.0/16''],
       Method databaseSecurityGroup ''addIngressRule''
         [Lib ''Peer.ipv4'' [Str ''10.1.254.0/24''],
          Lib ''Port.tcp'' [Num 3306],
          Str ''MySQL access from public subnet into database instance''],
       Method databaseSecurityGroup ''addIngressRule''
         [Lib ''Peer.anyIpv4'' [],
          Lib ''Port.icmpPing'' [],
          Str ''Allow ICMP ping from any ipv4''],
       New Instance this ''database-ec2-instance'' (Rec
         [(''vpc'', Obj sharedVpc),
          (''keyName'', Member sshKeyPair ''keyName''),
          (''vpcSubnets'', Rec [(''subnets'', Arr [Obj databaseSubnet])]),
          (''privateIpAddress'', Str ''10.2.2.41''),
          (''instanceType'', Lib ''new InstanceType'' [Str ''t2.micro'']),
          (''machineImage'', Lib ''MachineImage.latestAmazonLinux'' []),
          (''instanceName'', Str ''database-ec2-instance''),
          (''securityGroup'', Obj databaseSecurityGroup)]),
       Method databaseEc2Instance ''applyRemovalPolicy'' [DESTROY]
     ])"


section \<open>src/unnamed/part_003\<close>

text \<open>
  The complete revision of \<open>VpcPluralsightStack\<close>. Its first 44 calls are, statement for
  statement, those of the revision under \<^verbatim>\<open>src/lib\<close>; it goes on with the peering
  connection, the NAT subnet and instance, and the flow logs. The commented-out route
  \<^verbatim>\<open>shared-route-table-route\<close> is not a call. Where the use of \<open>TransitVpcConstruct\<close>
  would go there is a comment only.
\<close>

definition VpcPluralsightStack_part_003_calls :: "path \<Rightarrow> string \<Rightarrow> val \<Rightarrow> call list" where
  "VpcPluralsightStack_part_003_calls scope ident props =
    (let this = scope @ [ident];
         publicVpc = this @ [''PublicVpc''];
         publicSubnet = this @ [''PublicSubnet''];
         publicRouteTable = this @ [''PublicRouteTable''];
         publicSubnetRouteTableAssociation = this @ [''PublicRouteTableSubnetAssociation1''];
         publicInternetGateway = this @ [''PublicInternetGateway''];
         publicVpcIgwAttachment = this @ [''PublicVpcIgwAttachment''];
         route = this @ [''PublicInternetAccessRoute''];
         publicSecurityGroup = this @ [''PublicSecurityGroup''];
         sshKeyPair = this @ [''ssh-keypair''];
         publicEc2Instance = this @ [''public-ec2-instance''];
         publicIpv4Address = this @ [''public-elastic-ip''];
         publicElasticIpVpcAssociation = this @ [''public-elastic-ip-network-interface-assc''];
         sharedVpc = this @ [''SharedVpc''];
         databaseSubnet = this @ [''DatabaseSubnet''];
         sharedVpcRouteTable = this @ [''SharedRouteTable''];
         sharedSubnetRouteTableAssociation = this @ [''SharedRouteTableSubnetAssociation''];
         databaseSecurityGroup = this @ [''DatabaseSecurityGroup''];
         databaseEc2Instance = this @ [''database-ec2-instance''];
         vpcPeeringConnection = this @ [''PCX''];
         publicRouteTablePeeringRoute = this @ [''public-route-table-peering-route''];
         sharedRouteTablePeeringRoute = this @ [''shared-route-table-peering-route''];
         sharedInternetGateway = this @ [''shared-igw''];
         sharedVpcIgwAttachment = this @ [''SharedVpcIgwAttachment''];
         natSubnet = this @ [''shared-nat-subnet''];
         natRouteTable = this @ [''nat-pub-route-table''];
         defaultNatRoute = this @ [''default-nat-route''];
         natSubnetRouteTableAssociation = this @ [''NATRouteTableSubnetAssociation''];
         natSecurityGroup = this @ [''nat-security-group''];
         natEc2Instance = this @ [''nat-ec2-instance''];
         natEip = this @ [''nat-eip''];
         sharedDefaultRoute = this @ [''shared-default-route''];
         logsIamRole = this @ [''LogsIMARole''];
         publicVpcAcceptFlowLogGroup = this @ [''public-vpc-accept-log-group''];
         publicVpcRejectFlowLogGroup = this @ [''public-vpc-reject-log-group'']
     in
     [ Super Stack scope ident props,
       New Vpc this ''PublicVpc'' (Rec
         [(''vpcName'', Str ''web-vpc''),
          (''cidr'', Str ''10.1.0.0/16''),
          (''subnetConfiguration'', Arr [])]),
       Method publicVpc ''applyRemovalPolicy'' [DESTROY],
       New Subnet this ''PublicSubnet'' (Rec
         [(''vpcId'', Member publicVpc ''vpcId''),
          (''availabilityZone'', Str ''eu-west-1a''),
          (''cidrBlock'', Str ''10.1.254.0/24'')]),
       Method publicSubnet ''applyRemovalPolicy'' [DESTROY],
       New CfnRouteTable this ''PublicRouteTable'' (Rec
         [(''vpcId'', Member publicVpc ''vpcId'')]),
       Method publicRouteTable ''applyRemovalPolicy'' [DESTROY],
       New CfnSubnetRouteTableAssociation this ''PublicRouteTableSubnetAssociation1'' (Rec
         [(''subnetId'', Member publicSubnet ''subnetId''),
          (''routeTableId'', Member publicRouteTable ''attrRouteTableId'')]),
       Method publicSubnetRouteTableAssociation ''applyRemovalPolicy'' [DESTROY],
       New CfnInternetGateway this ''PublicInternetGateway'' Undefined,
       Method publicInternetGateway ''applyRemovalPolicy'' [DESTROY],
       New CfnVPCGatewayAttachment this ''PublicVpcIgwAttachment'' (Rec
         [(''vpcId'', Member publicVpc ''vpcId''),
          (''internetGatewayId'', Member publicInternetGateway ''attrInternetGatewayId'')]),
       Method publicVpcIgwAttachment ''applyRemovalPolicy'' [DESTROY],
       New CfnRoute this ''PublicInternetAccessRoute'' (Rec
         [(''routeTableId'', Member publicRouteTable ''attrRouteTableId''),
          (''destinationCidrBlock'', Str ''0.0.0.0/0''),
          (''gatewayId'', Member publicInternetGateway ''attrInternetGatewayId'')]),
       Method route ''applyRemovalPolicy'' [DESTROY],
       New SecurityGroup this ''PublicSecurityGroup'' (Rec
         [(''vpc'', Obj publicVpc),
          (''securityGroupName'', Str ''web-pub-sg''),
          (''description'', Str ''Public VPC security group''),
          (''allowAllOutbound'', Bool True)]),
       Method publicSecurityGroup ''applyRemovalPolicy'' [DESTROY],
       Method publicSecurityGroup ''addIngressRule''
         [Lib ''Peer.ipv4'' [Str ''24.96.0.0/16''],
          Lib ''Port.tcp'' [Num 22],
          Str ''SSH access from IP range 24.96.0.0/16''],
       Method publicSecurityGroup ''addIngressRule''
         [Lib ''Peer.anyIpv4'' [],
          Lib ''Port.tcp'' [Num 80],
          Str ''Allow access into this public VPC from any ipv4 address''],
       Method publicSecurityGroup ''addIngressRule''
         [Lib ''Peer.anyIpv6'' [],
          Lib ''Port.tcp'' [Num 80],
          Str ''Allow access into this public VPC from any ipv6 address''],
       New CfnKeyPair this ''ssh-keypair'' (Rec
         [(''keyName'', Str ''public-ssh-key-pair'')]),
       Method sshKeyPair ''applyRemovalPolicy'' [DESTROY],
       New Instance this ''public-ec2-instance'' (Rec
         [(''vpc'', Obj publicVpc),
          (''keyName'', Member sshKeyPair ''keyName''),
          (''vpcSubnets'', Rec [(''subnets'', Arr [Obj publicSubnet])]),
          (''privateIpAddress'', Str ''10.1.254.10''),
          (''instanceType'', Lib ''new InstanceType'' [Str ''t2.micro'']),
          (''machineImage'', Lib ''MachineImage.latestAmazonLinux'' []),
          (''instanceName'', Str ''public-ec2-instance''),
          (''securityGroup'', Obj publicSecurityGroup)]),
       Method publicEc2Instance ''applyRemovalPolicy'' [DESTROY],
       New CfnEIP this ''public-elastic-ip'' Undefined,
       Method publicIpv4Address ''applyRemovalPolicy'' [DESTROY],
       New CfnEIPAssociation this ''public-elastic-ip-network-interface-assc'' (Rec
         [(''instanceId'', Member publicEc2Instance ''instanceId''),
          (''allocationId'', Member publicIpv4Address ''attrAllocationId'')]),
       Method publicElasticIpVpcAssociation ''applyRemovalPolicy'' [DESTROY],
       New Vpc this ''SharedVpc'' (Rec
         [(''vpcName'', Str ''shared-vpc''),
          (''cidr'', Str ''10.2.0.0/16''),
          (''subnetConfiguration'', Arr [])]),
       Method sharedVpc ''applyRemovalPolicy'' [DESTROY],
       New Subnet this ''DatabaseSubnet'' (Rec
         [(''vpcId'', Member sharedVpc ''vpcId''),
          (''availabilityZone'', Str ''eu-west-1a''),
          (''cidrBlock'', Str ''10.2.2.0/24'')]),
       Method databaseSubnet ''applyRemovalPolicy'' [DESTROY],
       New CfnRouteTable this ''SharedRouteTable'' (Rec
         [(''vpcId'', Member sharedVpc ''vpcId'')]),
       Method sharedVpcRouteTable ''applyRemovalPolicy'' [DESTROY],
       New CfnSubnetRouteTableAssociation this ''SharedRouteTableSubnetAssociation'' (Rec
         [(''subnetId'', Member databaseSubnet ''subnetId''),
          (''routeTableId'', Member sharedVpcRouteTable ''attrRouteTableId'')]),
       Method sharedSubnetRouteTableAssociation ''applyRemovalPolicy'' [DESTROY],
       New SecurityGroup this ''DatabaseSecurityGroup'' (Rec
         [(''vpc'', Obj sharedVpc),
          (''securityGroupName'', Str ''database-sg''),
          (''description'', Str ''Database security group''),
          (''allowAllOutbound'', Bool True)]),
       Method databaseSecurityGroup ''applyRemovalPolicy'' [DESTROY],
       Method databaseSecurityGroup ''addIngressRule''
         [Lib ''Peer.ipv4'' [Str ''192.168.0.0/16''],
          Lib ''Port.tcp'' [Num 22],
          Str ''SSH access from IP range 192.168.0.0/16''],
       Method databaseSecurityGroup ''addIngressRule''
         [Lib ''Peer.ipv4'' [Str ''10.2.0.0/16''],
          Lib ''Port.tcp'' [Num 22],
          Str ''SSH access from IP range 10.2.0.0/16''],
       Method databaseSecurityGroup ''addIngressRule''
         [Lib ''Peer.ipv4'' [Str ''10.1.254.0/24''],
          Lib ''Port.tcp'' [Num 3306],
          Str ''MySQL access from public subnet into database instance''],
       Method databaseSecurityGroup ''addIngressRule''
         [Lib ''Peer.anyIpv4'' [],
          Lib ''Port.icmpPing'' [],
          Str ''Allow ICMP ping from any ipv4''],
       New Instance this ''database-ec2-instance'' (Rec
         [(''vpc'', Obj sharedVpc),
          (''keyName'', Member sshKeyPair ''keyName''),
          (''vpcSubnets'', Rec [(''subnets'', Arr [Obj databaseSubnet])]),
          (''privateIpAddress'', Str ''10.2.2.41''),
          (''instanceType'', Lib ''new InstanceType'' [Str ''t2.micro'']),
          (''machineImage'', Lib ''MachineImage.latestAmazonLinux'' []),
          (''instanceName'', Str ''database-ec2-instance''),
          (''securityGroup'', Obj databaseSecurityGroup)]),
       Method databaseEc2Instance ''applyRemovalPolicy'' [DESTROY],
       New CfnVPCPeeringConnection this ''PCX'' (Rec
         [(''vpcId'', Member publicVpc ''vpcId''),
          (''peerVpcId'', Member sharedVpc ''vpcId''),
          (''tags'', Arr [Rec [(''key'', Str ''Name''), (''value'', Str ''web-shared-pcx'')]])]),
       Method vpcPeeringConnection ''applyRemovalPolicy'' [DESTROY],
       New CfnRoute this ''public-route-table-peering-route'' (Rec
         [(''routeTableId'', Member publicRouteTable ''attrRouteTableId''),
          (''destinationCidrBlock'', Str ''10.2.2.0/24''),
          (''vpcPeeringConnectionId'', Member vpcPeeringConnection ''peerOwnerId'')]),
       Method publicRouteTablePeeringRoute ''applyRemovalPolicy'' [DESTROY],
       New CfnRoute this ''shared-route-table-peering-route'' (Rec
         [(''routeTableId'', Member sharedVpcRouteTable ''attrRouteTableId''),
          (''destinationCidrBlock'', Str ''10.1.254.0/24''),
          (''vpcPeeringConnectionId'', Member vpcPeeringConnection ''peerOwnerId'')]),
       Method sharedRouteTablePeeringRoute ''applyRemovalPolicy'' [DESTROY],
       New CfnInternetGateway this ''shared-igw'' (Rec
         [(''tags'', Arr [Rec [(''key'', Str ''Name''), (''value'', Str ''shared-igw'')]])]),
       Method sharedInternetGateway ''applyRemovalPolicy'' [DESTROY],
       New CfnVPCGatewayAttachment this ''SharedVpcIgwAttachment'' (Rec
         [(''vpcId'', Member sharedVpc ''vpcId''),
          (''internetGatewayId'', Member sharedInternetGateway ''attrInternetGatewayId'')]),
       Method sharedVpcIgwAttachment ''applyRemovalPolicy'' [DESTROY],
       New Subnet this ''shared-nat-subnet'' (Rec
         [(''vpcId'', Member sharedVpc ''vpcId''),
          (''availabilityZone'', Str ''eu-west-1a''),
          (''cidrBlock'', Str ''10.2.254.0/24'')]),
       Method natSubnet ''applyRemovalPolicy'' [DESTROY],
       New CfnRouteTable this ''nat-pub-route-table'' (Rec
         [(''vpcId'', Member sharedVpc ''vpcId''),
          (''tags'', Arr [Rec [(''key'', Str ''Name''), (''value'', Str ''nat-pub'')]])]),
       Method natRouteTable ''applyRemovalPolicy'' [DESTROY],
       New CfnRoute this ''default-nat-route'' (Rec
         [(''routeTableId'', Member natRouteTable ''attrRouteTableId''),
          (''destinationCidrBlock'', Str ''0.0.0.0/0''),
          (''gatewayId'', Member sharedInternetGateway ''attrInternetGatewayId'')]),
       Method defaultNatRoute ''applyRemovalPolicy'' [DESTROY],
       New CfnSubnetRouteTableAssociation this ''NATRouteTableSubnetAssociation'' (Rec
         [(''subnetId'', Member natSubnet ''subnetId''),
          (''routeTableId'', Member natRouteTable ''attrRouteTableId'')]),
       Method natSubnetRouteTableAssociation ''applyRemovalPolicy'' [DESTROY],
       New SecurityGroup this ''nat-security-group'' (Rec
         [(''vpc'', Obj sharedVpc),
          (''securityGroupName'', Str ''NAT instance''),
          (''description'', Str ''Security group for NAT instance'')]),
       Method natSecurityGroup ''applyRemovalPolicy'' [DESTROY],
       Method natSecurityGroup ''addIngressRule''
         [Lib ''Peer.ipv4'' [Str ''24.96.0.0/16''],
          Lib ''Port.tcp'' [Num 22],
          Str ''Allow SSH access from ip range 24.96.0.0/16''],
       Method natSecurityGroup ''addIngressRule''
         [Lib ''Peer.ipv4'' [Str ''10.0.0.0/8''],
          Lib ''Port.allTraffic'' [],
          Str ''Allow 10.0.0.0/8 to access all traffic''],
       Method natSecurityGroup ''addIngressRule''
         [Lib ''Peer.ipv4'' [Str ''192.168.0.0/16''],
          Lib ''Port.allTraffic'' [],
          Str ''Allow 192.168.0.0/16 to access all traffic''],
       New Instance this ''nat-ec2-instance'' (Rec
         [(''vpc'', Obj sharedVpc),
          (''keyName'', Member sshKeyPair ''keyName''),
          (''vpcSubnets'', Rec [(''subnets'', Arr [Obj natSubnet])]),
          (''privateIpAddress'', Str ''10.2.254.254''),
          (''instanceType'', Lib ''new InstanceType'' [Str ''t2.micro'']),
          (''machineImage'', Lib ''new NatInstanceImage'' []),
          (''instanceName'', Str ''nat-ec2-instance''),
          (''securityGroup'', Obj natSecurityGroup)]),
       Method natEc2Instance ''applyRemovalPolicy'' [DESTROY],
       New CfnEIP this ''nat-eip'' (Rec
         [(''instanceId'', Member natEc2Instance ''instanceId'')]),
       Method natEip ''applyRemovalPolicy'' [DESTROY],
       New CfnRoute this ''shared-default-route'' (Rec
         [(''routeTableId'', Member sharedVpcRouteTable ''attrRouteTableId''),
          (''destinationCidrBlock'', Str ''0.0.0.0/0''),
          (''instanceId'', Member natEc2Instance ''instanceId'')]),
       Method sharedDefaultRoute ''applyRemovalPolicy'' [DESTROY],
       New Role this ''LogsIMARole'' (Rec
         [(''roleName'', Str ''IAM-logs-role''),
          (''assumedBy'', Lib ''new ServicePrincipal'' [Str ''vpc-flow-logs.amazonaws.com''])]),
       Method logsIamRole ''addToPolicy''
         [Lib ''new PolicyStatement'' [Rec
            [(''effect'', Const ''Effect'' ''ALLOW''),
             (''resources'', Arr [Str ''*'']),
             (''actions'', Arr [Str ''logs:*''])]]],
       New LogGroup this ''public-vpc-accept-log-group'' (Rec
         [(''logGroupName'', Str ''PublicVPCAcceptLogGroup''),
          (''retention'', Const ''RetentionDays'' ''ONE_DAY''),
          (''removalPolicy'', DESTROY)]),
       Method publicVpc ''addFlowLog''
         [Str ''public-vpc-accept-flow-log'',
          Rec [(''destination'', Lib ''FlowLogDestination.toCloudWatchLogs''
                  [Obj publicVpcAcceptFlowLogGroup, Obj logsIamRole]),
               (''trafficType'', Const ''FlowLogTrafficType'' ''ACCEPT'')]],
       New LogGroup this ''public-vpc-reject-log-group'' (Rec
         [(''logGroupName'', Str ''PublicVPCRejectLogGroup''),
          (''retention'', Const ''RetentionDays'' ''ONE_DAY''),
          (''removalPolicy'', DESTROY)]),
       Method publicVpc ''addFlowLog''
         [Str ''public-vpc-reject-flow-log'',
          Rec [(''destination'', Lib ''FlowLogDestination.toCloudWatchLogs''
                  [Obj publicVpcRejectFlowLogGroup, Obj logsIamRole]),
               (''trafficType'', Const ''FlowLogTrafficType'' ''REJECT'')]]
     ])"

definition VpcPluralsightStack_part_003 :: "toolkit \<Rightarrow> path \<Rightarrow> string \<Rightarrow> val \<Rightarrow> call list \<Rightarrow> outcome" where
  "VpcPluralsightStack_part_003 tk scope ident props done =
     run tk (VpcPluralsightStack_part_003_calls scope ident props) done"

section \<open>src/unnamed/part_000\<close>

text \<open>
  The class \<open>TransitVpcConstruct\<close>, with its props interface. The class is not exported
  from its file. Its constructor reads both props: the key pair name is passed on as a
  string, the shared VPC as an object and through its member \<^verbatim>\<open>vpcId\<close>.
\<close>

record TransitVpcConstructProps =
  sshKeyPairName :: string
  sharedVpc :: path

definition TransitVpcConstruct_calls :: "path \<Rightarrow> string \<Rightarrow> TransitVpcConstructProps \<Rightarrow> call list" where
  "TransitVpcConstruct_calls scope ident props =
    (let this = scope @ [ident];
         transitVpc = this @ [''transit-vpc''];
         transitVpcSubnet = this @ [''transit-vpc-subnet''];
         transitVpcInternetGateway = this @ [''transit-vpc-internet-gateway''];
         transitVpcIgwAttachment = this @ [''transit-vpc-igw-attachment''];
         transitVpcRouteTable = this @ [''transit-vpc-route-table''];
         transitRouteTableDefaultRoute = this @ [''transit-route-table-default''];
         transitSubnetRouteTableAssociation = this @ [''transit-subnet-route-table-assc''];
         transitInstanceSecGroup = this @ [''transit-instance-sec-group''];
         ciscoRouterInstance = this @ [''cisco-router-instance''];
         transitInstanceEip = this @ [''transit-instance-eip''];
         transitVPG = this @ [''transit-vpc-gateway''];
         vpgVpcAttachment = this @ [''transit-vpc-vpg-attachment''];
         transitSharedVpcVpnConnection = this @ [''transit-shared-vpc-vpn-conn''];
         transitRoutePropagation = this @ [''transitRouteProp''];
         onPremCustomerGateway1 = this @ [''on-prem-customer-gateway-1''];
         onPremCustomerGateway2 = this @ [''on-prem-customer-gateway-2''];
         cloudHubVPG = this @ [''on-prem-vpg''];
         cloudHubVpGAttachment = this @ [''on-prem-vpc-transit-attachment''];
         onPrem1VPNConnection = this @ [''on-prem-1-vpn-connection''];
         onPrem2VPNConnection = this @ [''on-prem-2-vpn-connection'']
     in
     [ Super Construct scope ident Undefined,
       New Vpc this ''transit-vpc'' (Rec
         [(''vpcName'', Str ''transit-vpc''),
          (''cidr'', Str ''10.3.0.0/16''),
          (''subnetConfiguration'', Arr [])]),
       Method transitVpc ''applyRemovalPolicy'' [DESTROY],
       New Subnet this ''transit-vpc-subnet'' (Rec
         [(''vpcId'', Member transitVpc ''vpcId''),
          (''availabilityZone'', Str ''eu-west-1a''),
          (''cidrBlock'', Str ''10.3.0.0/24'')]),
       Method transitVpcSubnet ''applyRemovalPolicy'' [DESTROY],
       New CfnInternetGateway this ''transit-vpc-internet-gateway'' (Rec
         [(''tags'', Arr [Rec [(''key'', Str ''Name''), (''value'', Str ''transit-igw'')]])]),
       Method transitVpcInternetGateway ''applyRemovalPolicy'' [DESTROY],
       New CfnVPCGatewayAttachment this ''transit-vpc-igw-attachment'' (Rec
         [(''vpcId'', Member transitVpc ''vpcId''),
          (''internetGatewayId'', Member transitVpcInternetGateway ''attrInternetGatewayId'')]),
       Method transitVpcIgwAttachment ''applyRemovalPolicy'' [DESTROY],
       New CfnRouteTable this ''transit-vpc-route-table'' (Rec
         [(''vpcId'', Member transitVpc ''vpcId''),
          (''tags'', Arr [Rec [(''key'', Str ''Name''), (''value'', Str ''transit'')]])]),
       Method transitVpcRouteTable ''applyRemovalPolicy'' [DESTROY],
       New CfnRoute this ''transit-route-table-default'' (Rec
         [(''routeTableId'', Member transitVpcRouteTable ''attrRouteTableId''),
          (''destinationCidrBlock'', Str ''0.0.0.0/0''),
          (''gatewayId'', Member transitVpcInternetGateway ''attrInternetGatewayId'')]),
       Method transitRouteTableDefaultRoute ''applyRemovalPolicy'' [DESTROY],
       New CfnSubnetRouteTableAssociation this ''transit-subnet-route-table-assc'' (Rec
         [(''routeTableId'', Member transitVpcRouteTable ''attrRouteTableId''),
          (''subnetId'', Member transitVpcSubnet ''subnetId'')]),
       Method transitSubnetRouteTableAssociation ''applyRemovalPolicy'' [DESTROY],
       New SecurityGroup this ''transit-instance-sec-group'' (Rec
         [(''vpc'', Obj transitVpc),
          (''securityGroupName'', Str ''Transit VPC ec2 instance security group'')]),
       Method transitInstanceSecGroup ''applyRemovalPolicy'' [DESTROY],
       Method transitInstanceSecGroup ''addIngressRule''
         [Lib ''Peer.ipv4'' [Str ''24.96.0.0/16''],
          Lib ''Port.tcp'' [Num 22],
          Str ''SSH access from ipv4 range 24.96.0.0/16''],
       New Instance this ''cisco-router-instance'' (Rec
         [(''vpc'', Obj transitVpc),
          (''keyName'', Str (sshKeyPairName props)),
          (''privateIpAddress'', Str ''10.3.0.10''),
          (''vpcSubnets'', Rec [(''subnets'', Arr [Obj transitVpcSubnet])]),
          (''instanceType'', Lib ''new InstanceType'' [Str ''t2.medium'']),
          (''instanceName'', Str ''transit-csr''),
          (''machineImage'', Lib ''new LookupMachineImage'' [Rec
             [(''name'', Str ''Cisco Cloud Services Router (CSR) 1000V - BYOL for Maximum Performance'')]])]),
       Method ciscoRouterInstance ''applyRemovalPolicy'' [DESTROY],
       New CfnEIP this ''transit-instance-eip'' (Rec
         [(''instanceId'', Member ciscoRouterInstance ''instanceId'')]),
       Method transitInstanceEip ''applyRemovalPolicy'' [DESTROY],
       New VpnGateway this ''transit-vpc-gateway'' (Rec
         [(''type'', Const ''VpnConnectionType'' ''IPSEC_1'')]),
       Method transitVPG ''applyRemovalPolicy'' [DESTROY],
       New CfnVPCGatewayAttachment this ''transit-vpc-vpg-attachment'' (Rec
         [(''vpcId'', Member (sharedVpc props) ''vpcId''),
          (''vpnGatewayId'', Member transitVPG ''gatewayId'')]),
       Method vpgVpcAttachment ''applyRemovalPolicy'' [DESTROY],
       New VpnConnection this ''transit-shared-vpc-vpn-conn'' (Rec
         [(''vpc'', Obj (sharedVpc props)),
          (''ip'', Member ciscoRouterInstance ''instancePublicIp'')]),
       Method transitSharedVpcVpnConnection ''applyRemovalPolicy'' [DESTROY],
       New CfnVPNGatewayRoutePropagation this ''transitRouteProp'' (Rec
         [(''vpnGatewayId'', Member transitVPG ''gatewayId''),
          (''routeTableIds'', Arr [Str ''*''])]),
       Method transitRoutePropagation ''applyRemovalPolicy'' [DESTROY],
       New CfnCustomerGateway this ''on-prem-customer-gateway-1'' (Rec
         [(''tags'', Arr [Rec [(''key'', Str ''Name''), (''value'', Str ''chs-r1'')]]),
          (''bgpAsn'', Num 65000),
          (''type'', Const ''VpnConnectionType'' ''IPSEC_1''),
          (''ipAddress'', Str ''24.96.154.173'')]),
       Method onPremCustomerGateway1 ''applyRemovalPolicy'' [DESTROY],
       New CfnCustomerGateway this ''on-prem-customer-gateway-2'' (Rec
         [(''tags'', Arr [Rec [(''key'', Str ''Name''), (''value'', Str ''atl-r1'')]]),
          (''bgpAsn'', Num 65001),
          (''type'', Const ''VpnConnectionType'' ''IPSEC_1''),
          (''ipAddress'', Str ''24.96.154.174'')]),
       Method onPremCustomerGateway2 ''applyRemovalPolicy'' [DESTROY],
       New VpnGateway this ''on-prem-vpg'' (Rec
         [(''type'', Const ''VpnConnectionType'' ''IPSEC_1'')]),
       Method cloudHubVPG ''applyRemovalPolicy'' [DESTROY],
       New CfnVPCGatewayAttachment this ''on-prem-vpc-transit-attachment'' (Rec
         [(''vpcId'', Member transitVpc ''vpcId''),
          (''vpnGatewayId'', Member cloudHubVPG ''gatewayId'')]),
       Method cloudHubVpGAttachment ''applyRemovalPolicy'' [DESTROY],
       New VpnConnection this ''on-prem-1-vpn-connection'' (Rec
         [(''vpc'', Obj transitVpc),
          (''ip'', Member onPremCustomerGateway1 ''ipAddress'')]),
       Method onPrem1VPNConnection ''applyRemovalPolicy'' [DESTROY],
       New VpnConnection this ''on-prem-2-vpn-connection'' (Rec
         [(''vpc'', Obj transitVpc),
          (''ip'', Member onPremCustomerGateway2 ''ipAddress'')]),
       Method onPrem2VPNConnection ''applyRemovalPolicy'' [DESTROY]
     ])"

definition TransitVpcConstruct :: "toolkit \<Rightarrow> path \<Rightarrow> string \<Rightarrow> TransitVpcConstructProps \<Rightarrow> call list \<Rightarrow> outcome" where
  "TransitVpcConstruct tk scope ident props done =
     run tk (TransitVpcConstruct_calls scope ident props) done"

section \<open>src/bin/vpc-pluralsight.ts\<close>

text \<open>
  The entry point: \<^verbatim>\<open>const app = new cdk.App(); new VpcPluralsightStack(app, 'VpcPluralsightStack');\<close>
  with \<open>VpcPluralsightStack\<close> imported from \<^verbatim>\<open>../lib/vpc-pluralsight-stack\<close>. The app is
  the root of the construct tree; no props are passed.
\<close>

definition app_calls :: "call list" where
  "app_calls =
     (let app = [] in
      NewRoot App # VpcPluralsightStack_lib_calls app ''VpcPluralsightStack'' Undefined)"

definition app :: "toolkit \<Rightarrow> outcome" where
  "app tk = run tk app_calls []"

section \<open>Notions used to state the properties\<close>

subsection \<open>Literals, keys and methods\<close>

text \<open>
  The values of the tags of a declaration. A tag without a value shows up as
  \<open>Undefined\<close>, and a \<^verbatim>\<open>tags\<close> property that is not an array of records as itself.
\<close>

definition tag_values :: "resource_decl \<Rightarrow> val list" where
  "tag_values d =
     (case prop_of d ''tags'' of
        None \<Rightarrow> []
      | Some (Arr ts) \<Rightarrow>
          map (\<lambda>t. case t of
                 Rec kvs \<Rightarrow> (case map_of kvs ''value'' of Some v \<Rightarrow> v | None \<Rightarrow> Undefined)
               | _ \<Rightarrow> t) ts
      | Some v \<Rightarrow> [v])"





definition decl_sig :: "resource_decl \<Rightarrow> construct_class \<times> string" where
  "decl_sig d = (d_class d, d_id d)"

definition decl_key :: "resource_decl \<Rightarrow> path \<times> string" where
  "decl_key d = (d_scope d, d_id d)"

definition prop_keys :: "resource_decl \<Rightarrow> string list" where
  "prop_keys d = (case d_props d of Rec kvs \<Rightarrow> map fst kvs | _ \<Rightarrow> [])"

definition of_class :: "construct_class \<Rightarrow> resource_decl list \<Rightarrow> resource_decl list" where
  "of_class k ds = filter (\<lambda>d. d_class d = k) ds"

definition with_prop :: "string \<Rightarrow> resource_decl list \<Rightarrow> resource_decl list" where
  "with_prop key ds = filter (\<lambda>d. prop_of d key \<noteq> None) ds"

fun method_of :: "call \<Rightarrow> (path \<times> string) list" where
  "method_of (Method x m args) = [(x, m)]"
| "method_of c = []"

definition methods_used :: "call list \<Rightarrow> string list" where
  "methods_used cs = remdups (map snd (concat (map method_of cs)))"

definition methods_on :: "path \<Rightarrow> call list \<Rightarrow> string list" where
  "methods_on x cs = map snd (filter (\<lambda>xm. fst xm = x) (concat (map method_of cs)))"

text \<open>
  The toolkit exposes the id of a low-level resource as its members \<^verbatim>\<open>ref\<close> and
  \<^verbatim>\<open>attrId\<close>; \<open>is_own_id p v\<close> says that \<open>v\<close> reads the id of the object at \<open>p\<close>.
\<close>

definition is_own_id :: "path \<Rightarrow> val \<Rightarrow> bool" where
  "is_own_id p v = (v = Member p ''ref'' \<or> v = Member p ''attrId'')"

subsection \<open>Kinds of resources\<close>

text \<open>
  The kinds of resource that the specification lists, and the toolkit classes that count
  for each. A VPN gateway and a customer gateway are gateways as well as VPN constructs.
\<close>

datatype resource_kind =
  VPC | SUBNET | ROUTE_TABLE | GATEWAY | SECURITY_GROUP | EC2_INSTANCE | VPN_OR_PEERING | FLOW_LOG

fun kinds_of :: "construct_class \<Rightarrow> resource_kind list" where
  "kinds_of Vpc = [VPC]"
| "kinds_of Subnet = [SUBNET]"
| "kinds_of CfnRouteTable = [ROUTE_TABLE]"
| "kinds_of CfnInternetGateway = [GATEWAY]"
| "kinds_of VpnGateway = [GATEWAY, VPN_OR_PEERING]"
| "kinds_of CfnCustomerGateway = [GATEWAY, VPN_OR_PEERING]"
| "kinds_of SecurityGroup = [SECURITY_GROUP]"
| "kinds_of Instance = [EC2_INSTANCE]"
| "kinds_of VpnConnection = [VPN_OR_PEERING]"
| "kinds_of CfnVPNGatewayRoutePropagation = [VPN_OR_PEERING]"
| "kinds_of CfnVPCPeeringConnection = [VPN_OR_PEERING]"
| "kinds_of FlowLog = [FLOW_LOG]"
| "kinds_of k = []"

definition declared_kinds :: "call list \<Rightarrow> resource_kind list" where
  "declared_kinds cs = remdups (concat (map (\<lambda>d. kinds_of (d_class d)) (declarations cs)))"

definition declared_classes :: "call list \<Rightarrow> construct_class list" where
  "declared_classes cs = remdups (map d_class (declarations cs))"

subsection \<open>The resources of the transit VPC\<close>

text \<open>
  A class that extends \<open>Construct\<close> starts with \<^verbatim>\<open>super(scope, id)\<close>; the only such class
  in the repository is \<open>TransitVpcConstruct\<close>. Its resources are recognised by class
  (VPN gateway, VPN connection, customer gateway, route propagation), by the transit
  CIDR block, and by the id and name of the router instance.
\<close>

fun instantiates_construct :: "call \<Rightarrow> bool" where
  "instantiates_construct (Super k scope i props) = (k = Construct)"
| "instantiates_construct c = False"

definition transit_resource :: "resource_decl \<Rightarrow> bool" where
  "transit_resource d =
     (d_class d = VpnGateway \<or> d_class d = VpnConnection \<or> d_class d = CfnCustomerGateway
      \<or> d_class d = CfnVPNGatewayRoutePropagation
      \<or> prop_of d ''cidr'' = Some (Str ''10.3.0.0/16'')
      \<or> d_id d = ''cisco-router-instance''
      \<or> prop_of d ''instanceName'' = Some (Str ''transit-csr''))"

subsection \<open>Instantiating a fixed sequence of calls\<close>

text \<open>
  \<open>rebase_call this\<close> replaces, in a call written for a placeholder \<^verbatim>\<open>this\<close> (a path of
  length one), the placeholder by the path \<open>this\<close>: in the scope of a \<^verbatim>\<open>new\<close>, in the
  receiver of a method, and in every object or member reference among the arguments.
\<close>

fun rebase_val :: "path \<Rightarrow> val \<Rightarrow> val" where
  "rebase_val this (Obj p) = Obj (this @ tl p)"
| "rebase_val this (Member p f) = Member (this @ tl p) f"
| "rebase_val this (Arr vs) = Arr (map (rebase_val this) vs)"
| "rebase_val this (Rec kvs) = Rec (map (map_prod (\<lambda>k. k) (rebase_val this)) kvs)"
| "rebase_val this (Lib f vs) = Lib f (map (rebase_val this) vs)"
| "rebase_val this v = v"

fun rebase_call :: "path \<Rightarrow> call \<Rightarrow> call" where
  "rebase_call this (New k scope i props) = New k (this @ tl scope) i (rebase_val this props)"
| "rebase_call this (Method x m args) = Method (this @ tl x) m (map (rebase_val this) args)"
| "rebase_call this c = c"

subsection \<open>CIDR blocks\<close>

text \<open>
  The meaning of the notation \<^verbatim>\<open>a.b.c.d/n\<close>: the block of the \<open>2 ^ (32 - n)\<close> addresses that
  agree with \<open>a.b.c.d\<close> on the first \<open>n\<close> bits. Addresses are numbers below \<open>2 ^ 32\<close>.
\<close>

fun split_on :: "char \<Rightarrow> string \<Rightarrow> string list" where
  "split_on sep [] = [[]]"
| "split_on sep (c # cs) =
     (if c = sep then [] # split_on sep cs
      else (case split_on sep cs of w # ws \<Rightarrow> (c # w) # ws | [] \<Rightarrow> [[c]]))"

definition digit_of :: "char \<Rightarrow> nat option" where
  "digit_of c = map_of (zip ''0123456789'' [0, 1, 2, 3, 4, 5, 6, 7, 8, 9]) c"

fun decimal_from :: "nat \<Rightarrow> string \<Rightarrow> nat option" where
  "decimal_from a [] = Some a"
| "decimal_from a (c # cs) =
     (case digit_of c of None \<Rightarrow> None | Some d \<Rightarrow> decimal_from (10 * a + d) cs)"

definition decimal :: "string \<Rightarrow> nat option" where
  "decimal s = (if s = [] then None else decimal_from 0 s)"

definition parse_cidr :: "string \<Rightarrow> (nat \<times> nat) option" where
  "parse_cidr s =
     (case split_on CHR ''/'' s of
        [a, l] \<Rightarrow>
          (case (map decimal (split_on CHR ''.'' a), decimal l) of
             ([Some b1, Some b2, Some b3, Some b4], Some n) \<Rightarrow>
               if b1 < 256 \<and> b2 < 256 \<and> b3 < 256 \<and> b4 < 256 \<and> n \<le> 32
               then Some (((b1 * 256 + b2) * 256 + b3) * 256 + b4, n)
               else None
           | _ \<Rightarrow> None)
      | _ \<Rightarrow> None)"

definition cidr_first :: "nat \<times> nat \<Rightarrow> nat" where
  "cidr_first c = fst c - fst c mod 2 ^ (32 - snd c)"

definition cidr_last :: "nat \<times> nat \<Rightarrow> nat" where
  "cidr_last c = cidr_first c + 2 ^ (32 - snd c) - 1"

definition cidr_within :: "nat \<times> nat \<Rightarrow> nat \<times> nat \<Rightarrow> bool" where
  "cidr_within c vc = (cidr_first vc \<le> cidr_first c \<and> cidr_last c \<le> cidr_last vc)"

definition cidr_disjoint :: "nat \<times> nat \<Rightarrow> nat \<times> nat \<Rightarrow> bool" where
  "cidr_disjoint c1 c2 = (cidr_last c1 < cidr_first c2 \<or> cidr_last c2 < cidr_first c1)"

text \<open>
  The VPC that a \<^verbatim>\<open>vpcId\<close> property refers to: the property is the member read
  \<^verbatim>\<open>vpc.vpcId\<close> of an object that the same constructor declared as a \<open>Vpc\<close>. Everything
  that is missing or malformed makes the checks below fail rather than hold.
\<close>

definition cidr_at :: "resource_decl \<Rightarrow> string \<Rightarrow> (nat \<times> nat) option" where
  "cidr_at d key = (case prop_of d key of Some (Str s) \<Rightarrow> parse_cidr s | _ \<Rightarrow> None)"

definition vpc_at :: "resource_decl list \<Rightarrow> resource_decl \<Rightarrow> string \<Rightarrow> resource_decl option" where
  "vpc_at ds d key =
     (case prop_of d key of
        Some (Member p f) \<Rightarrow>
          (if f = ''vpcId'' then find (\<lambda>v. d_class v = Vpc \<and> d_path v = p) ds else None)
      | _ \<Rightarrow> None)"

definition subnet_within_vpc :: "resource_decl list \<Rightarrow> resource_decl \<Rightarrow> bool" where
  "subnet_within_vpc ds d =
     (case vpc_at ds d ''vpcId'' of
        None \<Rightarrow> False
      | Some v \<Rightarrow>
          (case (cidr_at d ''cidrBlock'', cidr_at v ''cidr'') of
             (Some c, Some vc) \<Rightarrow> cidr_within c vc
           | _ \<Rightarrow> False))"

definition peers_disjoint :: "resource_decl list \<Rightarrow> resource_decl \<Rightarrow> bool" where
  "peers_disjoint ds d =
     (case (vpc_at ds d ''vpcId'', vpc_at ds d ''peerVpcId'') of
        (Some v, Some w) \<Rightarrow>
          (case (cidr_at v ''cidr'', cidr_at w ''cidr'') of
             (Some c1, Some c2) \<Rightarrow> cidr_disjoint c1 c2
           | _ \<Rightarrow> False)
      | _ \<Rightarrow> False)"

text \<open>For each subnet, its CIDR block and the CIDR block of its VPC, as written in the source.\<close>

definition subnet_blocks :: "resource_decl list \<Rightarrow> (val option \<times> val option) list" where
  "subnet_blocks ds =
     map (\<lambda>d. (prop_of d ''cidrBlock'',
                case vpc_at ds d ''vpcId'' of None \<Rightarrow> None | Some v \<Rightarrow> prop_of v ''cidr''))
       (of_class Subnet ds)"

section \<open>Properties\<close>

subsection \<open>Runs\<close>

lemma run_tk_ok: "run tk_ok cs done = \<lparr>completed = done @ cs, failed = None\<rparr>"
  by (induction cs arbitrary: "done") (simp_all add: tk_ok_def)

lemma run_attempted_prefix:
  "\<exists>k\<le>length cs. attempted (run tk cs done) = done @ take k cs"
proof (induction cs arbitrary: "done")
  case Nil
  then show ?case by (simp add: attempted_def)
next
  case (Cons c cs)
  show ?case
  proof (cases "tk done c")
    case None
    from Cons.IH [of "done @ [c]"] obtain k where
      k: "k \<le> length cs" "attempted (run tk cs (done @ [c])) = (done @ [c]) @ take k cs"
      by blast
    with None have "attempted (run tk (c # cs) done) = done @ take (Suc k) (c # cs)"
      by simp
    moreover from k(1) have "Suc k \<le> length (c # cs)" by simp
    ultimately show ?thesis by blast
  next
    case (Some e)
    then have "attempted (run tk (c # cs) done) = done @ take (Suc 0) (c # cs)"
      by (simp add: attempted_def)
    moreover have "Suc 0 \<le> length (c # cs)" by simp
    ultimately show ?thesis by blast
  qed
qed

lemma run_first_raise:
  "k < length cs \<Longrightarrow> (\<forall>j<k. tk (done @ take j cs) (cs ! j) = None) \<Longrightarrow>
   tk (done @ take k cs) (cs ! k) = Some e \<Longrightarrow>
   run tk cs done = \<lparr>completed = done @ take k cs, failed = Some (cs ! k, e)\<rparr>"
proof (induction cs arbitrary: "done" k)
  case Nil
  then show ?case by simp
next
  case (Cons c cs)
  show ?case
  proof (cases k)
    case 0
    with Cons.prems show ?thesis by simp
  next
    case (Suc k')
    from Cons.prems(2) Suc have c_ok: "tk done c = None" by force
    have k': "k' < length cs" using Cons.prems(1) Suc by simp
    have before: "\<forall>j<k'. tk ((done @ [c]) @ take j cs) (cs ! j) = None"
    proof (intro allI impI)
      fix j assume "j < k'"
      then have "Suc j < k" using Suc by simp
      with Cons.prems(2) have "tk (done @ take (Suc j) (c # cs)) ((c # cs) ! Suc j) = None"
        by blast
      then show "tk ((done @ [c]) @ take j cs) (cs ! j) = None" by simp
    qed
    have at: "tk ((done @ [c]) @ take k' cs) (cs ! k') = Some e"
      using Cons.prems(3) Suc by simp
    from Cons.IH [OF k' before at] c_ok Suc show ?thesis by simp
  qed
qed

subsection \<open>Declarations of a sequence of calls\<close>

lemma declarations_Nil: "declarations [] = []"
  by (simp add: declarations_def)

lemma declarations_Cons: "declarations (c # cs) = declares c @ declarations cs"
  by (simp add: declarations_def)

lemma declarations_append: "declarations (cs @ cs') = declarations cs @ declarations cs'"
  by (simp add: declarations_def)

lemma declarations_take_subset: "set (declarations (take k cs)) \<subseteq> set (declarations cs)"
proof -
  have "declarations cs = declarations (take k cs) @ declarations (drop k cs)"
    by (metis append_take_drop_id declarations_append)
  then show ?thesis by simp
qed

lemma filter_declarations_take:
  "filter P (declarations cs) = [] \<Longrightarrow> filter P (declarations (take k cs)) = []"
  using declarations_take_subset [of k cs] by (auto simp: filter_empty_conv)

lemma filter_take: "filter P cs = [] \<Longrightarrow> filter P (take k cs) = []"
  by (auto simp: filter_empty_conv dest: in_set_takeD)

lemma distinct_keys_take:
  "distinct (map decl_key (declarations cs)) \<Longrightarrow> distinct (map decl_key (declarations (take k cs)))"
proof -
  assume d: "distinct (map decl_key (declarations cs))"
  have "declarations cs = declarations (take k cs) @ declarations (drop k cs)"
    by (metis append_take_drop_id declarations_append)
  with d show ?thesis by simp
qed

subsection \<open>The call sequences, evaluated\<close>

lemma lib_length: "length (VpcPluralsightStack_lib_calls scope ident props) = 44"
  unfolding VpcPluralsightStack_lib_calls_def Let_def by simp

lemma part_003_length: "length (VpcPluralsightStack_part_003_calls scope ident props) = 79"
  unfolding VpcPluralsightStack_part_003_calls_def Let_def by simp

lemma transit_length: "length (TransitVpcConstruct_calls scope ident props) = 42"
  unfolding TransitVpcConstruct_calls_def Let_def by simp




lemma part_003_starts_with_super:
  "VpcPluralsightStack_part_003_calls scope ident props =
   Super Stack scope ident props # tl (VpcPluralsightStack_part_003_calls scope ident props)"
  unfolding VpcPluralsightStack_part_003_calls_def Let_def by (simp only: list.sel)



lemma lib_sigs:
  "map decl_sig (declarations (VpcPluralsightStack_lib_calls scope ident props)) =
     [(Vpc, ''PublicVpc''), (Subnet, ''PublicSubnet''), (CfnRouteTable, ''PublicRouteTable''),
      (CfnSubnetRouteTableAssociation, ''PublicRouteTableSubnetAssociation1''),
      (CfnInternetGateway, ''PublicInternetGateway''),
      (CfnVPCGatewayAttachment, ''PublicVpcIgwAttachment''),
      (CfnRoute, ''PublicInternetAccessRoute''), (SecurityGroup, ''PublicSecurityGroup''),
      (CfnKeyPair, ''ssh-keypair''), (Instance, ''public-ec2-instance''),
      (CfnEIP, ''public-elastic-ip''),
      (CfnEIPAssociation, ''public-elastic-ip-network-interface-assc''),
      (Vpc, ''SharedVpc''), (Subnet, ''DatabaseSubnet''), (CfnRouteTable, ''SharedRouteTable''),
      (CfnSubnetRouteTableAssociation, ''SharedRouteTableSubnetAssociation''),
      (SecurityGroup, ''DatabaseSecurityGroup''), (Instance, ''database-ec2-instance'')]"
  unfolding VpcPluralsightStack_lib_calls_def Let_def
  by (simp add: declarations_def decl_sig_def)

lemma part_003_sigs:
  "map decl_sig (declarations (VpcPluralsightStack_part_003_calls scope ident props)) =
     [(Vpc, ''PublicVpc''), (Subnet, ''PublicSubnet''), (CfnRouteTable, ''PublicRouteTable''),
      (CfnSubnetRouteTableAssociation, ''PublicRouteTableSubnetAssociation1''),
      (CfnInternetGateway, ''PublicInternetGateway''),
      (CfnVPCGatewayAttachment, ''PublicVpcIgwAttachment''),
      (CfnRoute, ''PublicInternetAccessRoute''), (SecurityGroup, ''PublicSecurityGroup''),
      (CfnKeyPair, ''ssh-keypair''), (Instance, ''public-ec2-instance''),
      (CfnEIP, ''public-elastic-ip''),
      (CfnEIPAssociation, ''public-elastic-ip-network-interface-assc''),
      (Vpc, ''SharedVpc''), (Subnet, ''DatabaseSubnet''), (CfnRouteTable, ''SharedRouteTable''),
      (CfnSubnetRouteTableAssociation, ''SharedRouteTableSubnetAssociation''),
      (SecurityGroup, ''DatabaseSecurityGroup''), (Instance, ''database-ec2-instance''),
      (CfnVPCPeeringConnection, ''PCX''), (CfnRoute, ''public-route-table-peering-route''),
      (CfnRoute, ''shared-route-table-peering-route''), (CfnInternetGateway, ''shared-igw''),
      (CfnVPCGatewayAttachment, ''SharedVpcIgwAttachment''), (Subnet, ''shared-nat-subnet''),
      (CfnRouteTable, ''nat-pub-route-table''), (CfnRoute, ''default-nat-route''),
      (CfnSubnetRouteTableAssociation, ''NATRouteTableSubnetAssociation''),
      (SecurityGroup, ''nat-security-group''), (Instance, ''nat-ec2-instance''),
      (CfnEIP, ''nat-eip''), (CfnRoute, ''shared-default-route''), (Role, ''LogsIMARole''),
      (LogGroup, ''public-vpc-accept-log-group''), (FlowLog, ''public-vpc-accept-flow-log''),
      (LogGroup, ''public-vpc-reject-log-group''), (FlowLog, ''public-vpc-reject-flow-log'')]"
  unfolding VpcPluralsightStack_part_003_calls_def Let_def
  by (simp add: declarations_def decl_sig_def)

lemma transit_sigs:
  "map decl_sig (declarations (TransitVpcConstruct_calls scope ident props)) =
     [(Vpc, ''transit-vpc''), (Subnet, ''transit-vpc-subnet''),
      (CfnInternetGateway, ''transit-vpc-internet-gateway''),
      (CfnVPCGatewayAttachment, ''transit-vpc-igw-attachment''),
      (CfnRouteTable, ''transit-vpc-route-table''), (CfnRoute, ''transit-route-table-default''),
      (CfnSubnetRouteTableAssociation, ''transit-subnet-route-table-assc''),
      (SecurityGroup, ''transit-instance-sec-group''), (Instance, ''cisco-router-instance''),
      (CfnEIP, ''transit-instance-eip''), (VpnGateway, ''transit-vpc-gateway''),
      (CfnVPCGatewayAttachment, ''transit-vpc-vpg-attachment''),
      (VpnConnection, ''transit-shared-vpc-vpn-conn''),
      (CfnVPNGatewayRoutePropagation, ''transitRouteProp''),
      (CfnCustomerGateway, ''on-prem-customer-gateway-1''),
      (CfnCustomerGateway, ''on-prem-customer-gateway-2''), (VpnGateway, ''on-prem-vpg''),
      (CfnVPCGatewayAttachment, ''on-prem-vpc-transit-attachment''),
      (VpnConnection, ''on-prem-1-vpn-connection''),
      (VpnConnection, ''on-prem-2-vpn-connection'')]"
  unfolding TransitVpcConstruct_calls_def Let_def
  by (simp add: declarations_def decl_sig_def)

lemma lib_keys_distinct:
  "distinct (map decl_key (declarations (VpcPluralsightStack_lib_calls scope ident props)))"
  unfolding VpcPluralsightStack_lib_calls_def Let_def
  by (simp add: declarations_def decl_key_def)

lemma part_003_keys_distinct:
  "distinct (map decl_key (declarations (VpcPluralsightStack_part_003_calls scope ident props)))"
  unfolding VpcPluralsightStack_part_003_calls_def Let_def
  by (simp add: declarations_def decl_key_def)

lemma transit_keys_distinct:
  "distinct (map decl_key (declarations (TransitVpcConstruct_calls scope ident props)))"
  unfolding TransitVpcConstruct_calls_def Let_def
  by (simp add: declarations_def decl_key_def)

lemma d_class_sig: "map d_class ds = map fst (map decl_sig ds)"
  by (simp add: decl_sig_def comp_def)

lemma d_id_sig: "map d_id ds = map snd (map decl_sig ds)"
  by (simp add: decl_sig_def comp_def)

lemma declared_kinds_sig:
  "declared_kinds cs = remdups (concat (map kinds_of (map fst (map decl_sig (declarations cs)))))"
  by (simp add: declared_kinds_def decl_sig_def comp_def)

lemma lib_kinds:
  "set (declared_kinds (VpcPluralsightStack_lib_calls scope ident props)) =
     {VPC, SUBNET, ROUTE_TABLE, GATEWAY, SECURITY_GROUP, EC2_INSTANCE}"
  by (simp only: declared_kinds_sig lib_sigs) auto

lemma part_003_kinds:
  "set (declared_kinds (VpcPluralsightStack_part_003_calls scope ident props)) =
     {VPC, SUBNET, ROUTE_TABLE, GATEWAY, SECURITY_GROUP, EC2_INSTANCE, VPN_OR_PEERING, FLOW_LOG}"
  by (simp only: declared_kinds_sig part_003_sigs) auto

lemma part_003_vpn_or_peering_classes:
  "filter (\<lambda>k. VPN_OR_PEERING \<in> set (kinds_of k))
     (declared_classes (VpcPluralsightStack_part_003_calls scope ident props)) =
   [CfnVPCPeeringConnection]"
  by (simp add: declared_classes_def d_class_sig part_003_sigs)

lemma app_completed_ok: "completed (app tk_ok) = app_calls"
  by (simp add: app_def run_tk_ok)

lemma app_kinds:
  "set (declared_kinds app_calls) =
     {VPC, SUBNET, ROUTE_TABLE, GATEWAY, SECURITY_GROUP, EC2_INSTANCE}"
proof -
  have "declared_kinds app_calls =
        declared_kinds (VpcPluralsightStack_lib_calls [] ''VpcPluralsightStack'' Undefined)"
    by (simp add: app_calls_def declared_kinds_def declarations_Cons)
  then show ?thesis by (simp only: lib_kinds)
qed

lemma part_003_tag_values:
  "concat (map tag_values (declarations (VpcPluralsightStack_part_003_calls scope ident props))) =
     [Str ''web-shared-pcx'', Str ''shared-igw'', Str ''nat-pub'']"
  unfolding VpcPluralsightStack_part_003_calls_def Let_def
  by (simp add: declarations_def tag_values_def prop_of_def)

lemma part_003_template:
  "VpcPluralsightStack_part_003_calls scope ident props =
     Super Stack scope ident props #
     map (rebase_call (scope @ [ident]))
       (tl (VpcPluralsightStack_part_003_calls [] ''this'' Undefined))"
  unfolding VpcPluralsightStack_part_003_calls_def Let_def by simp

lemma part_003_declarations_length:
  "length (declarations (VpcPluralsightStack_part_003_calls scope ident props)) = 36"
proof -
  have "length (map decl_sig (declarations (VpcPluralsightStack_part_003_calls scope ident props))) = 36"
    by (simp only: part_003_sigs) simp
  then show ?thesis by simp
qed

lemma app_no_construct: "filter instantiates_construct app_calls = []"
  unfolding app_calls_def VpcPluralsightStack_lib_calls_def Let_def by simp

lemma part_003_no_construct:
  "filter instantiates_construct (VpcPluralsightStack_part_003_calls scope ident props) = []"
  unfolding VpcPluralsightStack_part_003_calls_def Let_def by simp

lemma app_no_transit_resource: "filter transit_resource (declarations app_calls) = []"
  unfolding app_calls_def VpcPluralsightStack_lib_calls_def Let_def
  by (simp add: declarations_def transit_resource_def prop_of_def)

lemma part_003_no_transit_resource:
  "filter transit_resource
     (declarations (VpcPluralsightStack_part_003_calls scope ident props)) = []"
  unfolding VpcPluralsightStack_part_003_calls_def Let_def
  by (simp add: declarations_def transit_resource_def prop_of_def)

lemma transit_resources:
  "map decl_sig (filter transit_resource
     (declarations (TransitVpcConstruct_calls scope ident props))) =
     [(Vpc, ''transit-vpc''), (Instance, ''cisco-router-instance''),
      (VpnGateway, ''transit-vpc-gateway''), (VpnConnection, ''transit-shared-vpc-vpn-conn''),
      (CfnVPNGatewayRoutePropagation, ''transitRouteProp''),
      (CfnCustomerGateway, ''on-prem-customer-gateway-1''),
      (CfnCustomerGateway, ''on-prem-customer-gateway-2''), (VpnGateway, ''on-prem-vpg''),
      (VpnConnection, ''on-prem-1-vpn-connection''),
      (VpnConnection, ''on-prem-2-vpn-connection'')]"
  unfolding TransitVpcConstruct_calls_def Let_def
  by (simp add: declarations_def transit_resource_def prop_of_def decl_sig_def)

lemma transit_starts_with_super:
  "hd (TransitVpcConstruct_calls scope ident props) = Super Construct scope ident Undefined"
  unfolding TransitVpcConstruct_calls_def Let_def by (simp only: list.sel)


lemma part_003_peering_routes:
  "map (\<lambda>d. (decl_sig d, prop_of d ''routeTableId'', prop_of d ''destinationCidrBlock'',
              prop_of d ''vpcPeeringConnectionId''))
     (with_prop ''vpcPeeringConnectionId''
        (declarations (VpcPluralsightStack_part_003_calls scope ident props))) =
   [((CfnRoute, ''public-route-table-peering-route''),
     Some (Member (scope @ [ident, ''PublicRouteTable'']) ''attrRouteTableId''),
     Some (Str ''10.2.2.0/24''),
     Some (Member (scope @ [ident, ''PCX'']) ''peerOwnerId'')),
    ((CfnRoute, ''shared-route-table-peering-route''),
     Some (Member (scope @ [ident, ''SharedRouteTable'']) ''attrRouteTableId''),
     Some (Str ''10.1.254.0/24''),
     Some (Member (scope @ [ident, ''PCX'']) ''peerOwnerId''))]"
  unfolding VpcPluralsightStack_part_003_calls_def Let_def
  by (simp add: declarations_def with_prop_def prop_of_def decl_sig_def)

lemma part_003_pcx:
  "of_class CfnVPCPeeringConnection
     (declarations (VpcPluralsightStack_part_003_calls scope ident props)) =
   [\<lparr>d_class = CfnVPCPeeringConnection, d_scope = scope @ [ident], d_id = ''PCX'',
     d_props = Rec
       [(''vpcId'', Member (scope @ [ident, ''PublicVpc'']) ''vpcId''),
        (''peerVpcId'', Member (scope @ [ident, ''SharedVpc'']) ''vpcId''),
        (''tags'', Arr [Rec [(''key'', Str ''Name''), (''value'', Str ''web-shared-pcx'')]])]\<rparr>]"
  unfolding VpcPluralsightStack_part_003_calls_def Let_def
  by (simp add: declarations_def of_class_def)

lemma part_003_vpcs:
  "of_class Vpc (declarations (VpcPluralsightStack_part_003_calls scope ident props)) =
   [\<lparr>d_class = Vpc, d_scope = scope @ [ident], d_id = ''PublicVpc'',
     d_props = Rec
       [(''vpcName'', Str ''web-vpc''), (''cidr'', Str ''10.1.0.0/16''),
        (''subnetConfiguration'', Arr [])]\<rparr>,
    \<lparr>d_class = Vpc, d_scope = scope @ [ident], d_id = ''SharedVpc'',
     d_props = Rec
       [(''vpcName'', Str ''shared-vpc''), (''cidr'', Str ''10.2.0.0/16''),
        (''subnetConfiguration'', Arr [])]\<rparr>]"
  unfolding VpcPluralsightStack_part_003_calls_def Let_def
  by (simp add: declarations_def of_class_def)

lemma lib_vpcs:
  "of_class Vpc (declarations (VpcPluralsightStack_lib_calls scope ident props)) =
   [\<lparr>d_class = Vpc, d_scope = scope @ [ident], d_id = ''PublicVpc'',
     d_props = Rec
       [(''vpcName'', Str ''web-vpc''), (''cidr'', Str ''10.1.0.0/16''),
        (''subnetConfiguration'', Arr [])]\<rparr>,
    \<lparr>d_class = Vpc, d_scope = scope @ [ident], d_id = ''SharedVpc'',
     d_props = Rec
       [(''vpcName'', Str ''shared-vpc''), (''cidr'', Str ''10.2.0.0/16''),
        (''subnetConfiguration'', Arr [])]\<rparr>]"
  unfolding VpcPluralsightStack_lib_calls_def Let_def
  by (simp add: declarations_def of_class_def)

lemma part_003_subnets:
  "of_class Subnet (declarations (VpcPluralsightStack_part_003_calls scope ident props)) =
   [\<lparr>d_class = Subnet, d_scope = scope @ [ident], d_id = ''PublicSubnet'',
     d_props = Rec
       [(''vpcId'', Member (scope @ [ident, ''PublicVpc'']) ''vpcId''),
        (''availabilityZone'', Str ''eu-west-1a''), (''cidrBlock'', Str ''10.1.254.0/24'')]\<rparr>,
    \<lparr>d_class = Subnet, d_scope = scope @ [ident], d_id = ''DatabaseSubnet'',
     d_props = Rec
       [(''vpcId'', Member (scope @ [ident, ''SharedVpc'']) ''vpcId''),
        (''availabilityZone'', Str ''eu-west-1a''), (''cidrBlock'', Str ''10.2.2.0/24'')]\<rparr>,
    \<lparr>d_class = Subnet, d_scope = scope @ [ident], d_id = ''shared-nat-subnet'',
     d_props = Rec
       [(''vpcId'', Member (scope @ [ident, ''SharedVpc'']) ''vpcId''),
        (''availabilityZone'', Str ''eu-west-1a''), (''cidrBlock'', Str ''10.2.254.0/24'')]\<rparr>]"
  unfolding VpcPluralsightStack_part_003_calls_def Let_def
  by (simp add: declarations_def of_class_def)

lemma lib_subnets:
  "of_class Subnet (declarations (VpcPluralsightStack_lib_calls scope ident props)) =
   [\<lparr>d_class = Subnet, d_scope = scope @ [ident], d_id = ''PublicSubnet'',
     d_props = Rec
       [(''vpcId'', Member (scope @ [ident, ''PublicVpc'']) ''vpcId''),
        (''availabilityZone'', Str ''eu-west-1a''), (''cidrBlock'', Str ''10.1.254.0/24'')]\<rparr>,
    \<lparr>d_class = Subnet, d_scope = scope @ [ident], d_id = ''DatabaseSubnet'',
     d_props = Rec
       [(''vpcId'', Member (scope @ [ident, ''SharedVpc'']) ''vpcId''),
        (''availabilityZone'', Str ''eu-west-1a''), (''cidrBlock'', Str ''10.2.2.0/24'')]\<rparr>]"
  unfolding VpcPluralsightStack_lib_calls_def Let_def
  by (simp add: declarations_def of_class_def)

lemma find_conj_filter: "find (\<lambda>x. P x \<and> Q x) xs = find Q (filter P xs)"
  by (induction xs) simp_all

lemma vpc_at_of_class:
  "vpc_at ds d key =
     (case prop_of d key of
        Some (Member p f) \<Rightarrow>
          (if f = ''vpcId'' then find (\<lambda>v. d_path v = p) (of_class Vpc ds) else None)
      | _ \<Rightarrow> None)"
  by (simp add: vpc_at_def of_class_def find_conj_filter split: option.split val.split)

lemma block_10_1: "parse_cidr ''10.1.0.0/16'' = Some (167837696, 16)"
  by (simp add: parse_cidr_def decimal_def digit_of_def)

lemma block_10_2: "parse_cidr ''10.2.0.0/16'' = Some (167903232, 16)"
  by (simp add: parse_cidr_def decimal_def digit_of_def)

lemma block_10_1_254: "parse_cidr ''10.1.254.0/24'' = Some (167902720, 24)"
  by (simp add: parse_cidr_def decimal_def digit_of_def)

lemma block_10_2_2: "parse_cidr ''10.2.2.0/24'' = Some (167903744, 24)"
  by (simp add: parse_cidr_def decimal_def digit_of_def)

lemma block_10_2_254: "parse_cidr ''10.2.254.0/24'' = Some (167968256, 24)"
  by (simp add: parse_cidr_def decimal_def digit_of_def)

lemmas blocks = block_10_1 block_10_2 block_10_1_254 block_10_2_2 block_10_2_254

lemma part_003_subnets_within:
  "list_all (subnet_within_vpc (declarations (VpcPluralsightStack_part_003_calls scope ident props)))
     (of_class Subnet (declarations (VpcPluralsightStack_part_003_calls scope ident props)))"
  by (simp add: part_003_subnets subnet_within_vpc_def vpc_at_of_class part_003_vpcs
      prop_of_def d_path_def cidr_at_def blocks cidr_within_def cidr_first_def cidr_last_def)

lemma lib_subnets_within:
  "list_all (subnet_within_vpc (declarations (VpcPluralsightStack_lib_calls scope ident props)))
     (of_class Subnet (declarations (VpcPluralsightStack_lib_calls scope ident props)))"
  by (simp add: lib_subnets subnet_within_vpc_def vpc_at_of_class lib_vpcs
      prop_of_def d_path_def cidr_at_def blocks cidr_within_def cidr_first_def cidr_last_def)

lemma part_003_subnet_blocks:
  "subnet_blocks (declarations (VpcPluralsightStack_part_003_calls scope ident props)) =
     [(Some (Str ''10.1.254.0/24''), Some (Str ''10.1.0.0/16'')),
      (Some (Str ''10.2.2.0/24''), Some (Str ''10.2.0.0/16'')),
      (Some (Str ''10.2.254.0/24''), Some (Str ''10.2.0.0/16''))]"
  by (simp add: subnet_blocks_def part_003_subnets vpc_at_of_class part_003_vpcs
      prop_of_def d_path_def)

lemma part_003_peers_disjoint:
  "list_all (peers_disjoint (declarations (VpcPluralsightStack_part_003_calls scope ident props)))
     (of_class CfnVPCPeeringConnection
        (declarations (VpcPluralsightStack_part_003_calls scope ident props)))"
  by (simp add: part_003_pcx peers_disjoint_def vpc_at_of_class part_003_vpcs
      prop_of_def d_path_def cidr_at_def blocks cidr_disjoint_def cidr_first_def cidr_last_def)

lemma block_ranges:
  "map (\<lambda>s. map_option (\<lambda>c. (cidr_first c, cidr_last c)) (parse_cidr s))
     [''10.1.0.0/16'', ''10.1.254.0/24'', ''10.2.0.0/16'', ''10.2.2.0/24'', ''10.2.254.0/24''] =
     [Some (167837696, 167903231), Some (167902720, 167902975),
      Some (167903232, 167968767), Some (167903744, 167903999),
      Some (167968256, 167968511)]"
  by (simp add: blocks cidr_first_def cidr_last_def)

lemma transit_instances:
  "map (\<lambda>d. (d_id d, prop_keys d))
     (of_class Instance (declarations (TransitVpcConstruct_calls scope ident props))) =
   [(''cisco-router-instance'',
     [''vpc'', ''keyName'', ''privateIpAddress'', ''vpcSubnets'', ''instanceType'',
      ''instanceName'', ''machineImage''])]"
  unfolding TransitVpcConstruct_calls_def Let_def
  by (simp add: declarations_def of_class_def prop_keys_def)

lemma transit_vpn_connections:
  "map (\<lambda>d. (d_id d, d_props d))
     (of_class VpnConnection (declarations (TransitVpcConstruct_calls scope ident props))) =
   [(''transit-shared-vpc-vpn-conn'',
     Rec [(''vpc'', Obj (sharedVpc props)),
          (''ip'', Member (scope @ [ident, ''cisco-router-instance'']) ''instancePublicIp'')]),
    (''on-prem-1-vpn-connection'',
     Rec [(''vpc'', Obj (scope @ [ident, ''transit-vpc''])),
          (''ip'', Member (scope @ [ident, ''on-prem-customer-gateway-1'']) ''ipAddress'')]),
    (''on-prem-2-vpn-connection'',
     Rec [(''vpc'', Obj (scope @ [ident, ''transit-vpc''])),
          (''ip'', Member (scope @ [ident, ''on-prem-customer-gateway-2'']) ''ipAddress'')])]"
  unfolding TransitVpcConstruct_calls_def Let_def
  by (simp add: declarations_def of_class_def)

lemma transit_methods_used:
  "set (methods_used (TransitVpcConstruct_calls scope ident props)) =
     {''addIngressRule'', ''applyRemovalPolicy''}"
  unfolding TransitVpcConstruct_calls_def Let_def
  by (simp add: methods_used_def)

lemma transit_methods_on_router:
  "methods_on (scope @ [ident, ''cisco-router-instance''])
     (TransitVpcConstruct_calls scope ident props) = [''applyRemovalPolicy'']"
  unfolding TransitVpcConstruct_calls_def Let_def
  by (simp add: methods_on_def)

lemma transit_methods_on_vpn:
  "methods_on (scope @ [ident, ''transit-shared-vpc-vpn-conn''])
     (TransitVpcConstruct_calls scope ident props) = [''applyRemovalPolicy'']"
  unfolding TransitVpcConstruct_calls_def Let_def
  by (simp add: methods_on_def)

lemma part_003_methods_used:
  "set (methods_used (VpcPluralsightStack_part_003_calls scope ident props)) =
     {''addIngressRule'', ''applyRemovalPolicy'', ''addToPolicy'', ''addFlowLog''}"
  unfolding VpcPluralsightStack_part_003_calls_def Let_def
  by (simp add: methods_used_def)

lemma lib_methods_used:
  "set (methods_used (VpcPluralsightStack_lib_calls scope ident props)) =
     {''addIngressRule'', ''applyRemovalPolicy''}"
  unfolding VpcPluralsightStack_lib_calls_def Let_def
  by (simp add: methods_used_def)

lemma part_003_call_28:
  "VpcPluralsightStack_part_003_calls [] ''VpcPluralsightStack'' Undefined ! 28 =
     New Vpc [''VpcPluralsightStack''] ''SharedVpc'' (Rec
       [(''vpcName'', Str ''shared-vpc''), (''cidr'', Str ''10.2.0.0/16''),
        (''subnetConfiguration'', Arr [])])"
  unfolding VpcPluralsightStack_part_003_calls_def Let_def by simp

subsection \<open>Runs that stop early, and runs that do not\<close>

lemma run_completed_prefix:
  "\<exists>k\<le>length cs. completed (run tk cs done) = done @ take k cs"
proof (induction cs arbitrary: "done")
  case Nil
  then show ?case by simp
next
  case (Cons c cs)
  show ?case
  proof (cases "tk done c")
    case None
    from Cons.IH [of "done @ [c]"] obtain k where
      k: "k \<le> length cs" "completed (run tk cs (done @ [c])) = (done @ [c]) @ take k cs"
      by blast
    with None have "completed (run tk (c # cs) done) = done @ take (Suc k) (c # cs)"
      by simp
    moreover from k(1) have "Suc k \<le> length (c # cs)" by simp
    ultimately show ?thesis by blast
  next
    case (Some e)
    then have "completed (run tk (c # cs) done) = done @ take 0 (c # cs)" by simp
    then show ?thesis by blast
  qed
qed

lemma run_failed_None:
  "failed (run tk cs done) = None \<Longrightarrow> completed (run tk cs done) = done @ cs"
proof (induction cs arbitrary: "done")
  case Nil
  then show ?case by simp
next
  case (Cons c cs)
  show ?case
  proof (cases "tk done c")
    case None
    with Cons.prems have "failed (run tk cs (done @ [c])) = None" by simp
    from Cons.IH [OF this] None show ?thesis by simp
  next
    case (Some e)
    with Cons.prems show ?thesis by simp
  qed
qed

lemma declarations_take_prefix:
  "declarations (take k cs) = take (length (declarations (take k cs))) (declarations cs)"
proof -
  have "declarations cs = declarations (take k cs) @ declarations (drop k cs)"
    by (metis append_take_drop_id declarations_append)
  then show ?thesis by simp
qed

lemma run_declarations_prefix:
  "\<exists>n. declarations (completed (run tk cs [])) = take n (declarations cs)"
proof -
  obtain k where "completed (run tk cs []) = take k cs"
    using run_completed_prefix [of cs tk "[]"] by auto
  then show ?thesis using declarations_take_prefix [of k cs] by metis
qed

lemma declared_kinds_take_subset:
  "set (declared_kinds (take k cs)) \<subseteq> set (declared_kinds cs)"
  using declarations_take_subset [of k cs] by (auto simp: declared_kinds_def)

lemma tk_lookup_other: "\<not> looks_up_image c \<Longrightarrow> tk_lookup done c = None"
  by (simp add: tk_lookup_def)

lemma run_tk_lookup_env:
  "list_ex gives_env done \<Longrightarrow>
   run tk_lookup cs done = \<lparr>completed = done @ cs, failed = None\<rparr>"
proof (induction cs arbitrary: "done")
  case Nil
  then show ?case by simp
next
  case (Cons c cs)
  from Cons.prems have "tk_lookup done c = None" by (simp add: tk_lookup_def)
  moreover from Cons.prems have "list_ex gives_env (done @ [c])" by (simp add: list_ex_iff)
  ultimately show ?case using Cons.IH [of "done @ [c]"] by simp
qed

lemma part_003_with_env:
  assumes "gives_env (Super Stack scope ident props)"
  shows "VpcPluralsightStack_part_003 tk_lookup scope ident props [] =
         \<lparr>completed = VpcPluralsightStack_part_003_calls scope ident props, failed = None\<rparr>"
proof -
  let ?rest = "tl (VpcPluralsightStack_part_003_calls scope ident props)"
  have cs: "VpcPluralsightStack_part_003_calls scope ident props =
      Super Stack scope ident props # ?rest"
    by (rule part_003_starts_with_super)
  have "run tk_lookup (Super Stack scope ident props # ?rest) [] =
      run tk_lookup ?rest [Super Stack scope ident props]"
    by (simp add: tk_lookup_def)
  also have "\<dots> = \<lparr>completed = [Super Stack scope ident props] @ ?rest, failed = None\<rparr>"
    using assms by (intro run_tk_lookup_env) simp
  finally have "run tk_lookup (Super Stack scope ident props # ?rest) [] =
      \<lparr>completed = Super Stack scope ident props # ?rest, failed = None\<rparr>"
    by simp
  then show ?thesis
    unfolding VpcPluralsightStack_part_003_def using cs by simp
qed

lemma part_003_no_lookup_before_nat:
  "list_all (\<lambda>c. \<not> looks_up_image c)
     (take 67 (VpcPluralsightStack_part_003_calls scope ident props))"
  unfolding VpcPluralsightStack_part_003_calls_def Let_def by simp

lemma part_003_no_env_before_nat:
  "\<not> list_ex gives_env (take 67 (VpcPluralsightStack_part_003_calls scope ident Undefined))"
  unfolding VpcPluralsightStack_part_003_calls_def Let_def by simp

lemma part_003_call_67:
  "VpcPluralsightStack_part_003_calls scope ident props ! 67 =
     New Instance (scope @ [ident]) ''nat-ec2-instance'' (Rec
       [(''vpc'', Obj (scope @ [ident, ''SharedVpc''])),
        (''keyName'', Member (scope @ [ident, ''ssh-keypair'']) ''keyName''),
        (''vpcSubnets'', Rec [(''subnets'', Arr [Obj (scope @ [ident, ''shared-nat-subnet''])])]),
        (''privateIpAddress'', Str ''10.2.254.254''),
        (''instanceType'', Lib ''new InstanceType'' [Str ''t2.micro'']),
        (''machineImage'', Lib ''new NatInstanceImage'' []),
        (''instanceName'', Str ''nat-ec2-instance''),
        (''securityGroup'', Obj (scope @ [ident, ''nat-security-group'']))])"
  unfolding VpcPluralsightStack_part_003_calls_def Let_def by simp

lemma part_003_sigs_before_nat:
  "map decl_sig (declarations (take 67 (VpcPluralsightStack_part_003_calls scope ident props))) =
     [(Vpc, ''PublicVpc''), (Subnet, ''PublicSubnet''), (CfnRouteTable, ''PublicRouteTable''),
      (CfnSubnetRouteTableAssociation, ''PublicRouteTableSubnetAssociation1''),
      (CfnInternetGateway, ''PublicInternetGateway''),
      (CfnVPCGatewayAttachment, ''PublicVpcIgwAttachment''),
      (CfnRoute, ''PublicInternetAccessRoute''), (SecurityGroup, ''PublicSecurityGroup''),
      (CfnKeyPair, ''ssh-keypair''), (Instance, ''public-ec2-instance''),
      (CfnEIP, ''public-elastic-ip''),
      (CfnEIPAssociation, ''public-elastic-ip-network-interface-assc''),
      (Vpc, ''SharedVpc''), (Subnet, ''DatabaseSubnet''), (CfnRouteTable, ''SharedRouteTable''),
      (CfnSubnetRouteTableAssociation, ''SharedRouteTableSubnetAssociation''),
      (SecurityGroup, ''DatabaseSecurityGroup''), (Instance, ''database-ec2-instance''),
      (CfnVPCPeeringConnection, ''PCX''), (CfnRoute, ''public-route-table-peering-route''),
      (CfnRoute, ''shared-route-table-peering-route''), (CfnInternetGateway, ''shared-igw''),
      (CfnVPCGatewayAttachment, ''SharedVpcIgwAttachment''), (Subnet, ''shared-nat-subnet''),
      (CfnRouteTable, ''nat-pub-route-table''), (CfnRoute, ''default-nat-route''),
      (CfnSubnetRouteTableAssociation, ''NATRouteTableSubnetAssociation''),
      (SecurityGroup, ''nat-security-group'')]"
  unfolding VpcPluralsightStack_part_003_calls_def Let_def
  by (simp add: declarations_def decl_sig_def)

lemma part_003_without_env:
  "VpcPluralsightStack_part_003 tk_lookup scope ident Undefined [] =
     \<lparr>completed = take 67 (VpcPluralsightStack_part_003_calls scope ident Undefined),
      failed = Some (VpcPluralsightStack_part_003_calls scope ident Undefined ! 67,
                     Error ''no account or region at the stack level'')\<rparr>"
proof -
  let ?cs = "VpcPluralsightStack_part_003_calls scope ident Undefined"
  have k: "67 < length ?cs" by (simp add: part_003_length)
  have "\<forall>j<67. \<not> looks_up_image (?cs ! j)"
    using part_003_no_lookup_before_nat [of scope ident Undefined]
    by (simp add: list_all_length part_003_length)
  then have before: "\<forall>j<67. tk_lookup ([] @ take j ?cs) (?cs ! j) = None"
    by (simp add: tk_lookup_other)
  have "looks_up_image (?cs ! 67)"
    by (simp only: part_003_call_67) simp
  then have at: "tk_lookup ([] @ take 67 ?cs) (?cs ! 67) =
      Some (Error ''no account or region at the stack level'')"
    using part_003_no_env_before_nat [of scope ident] by (simp add: tk_lookup_def)
  from run_first_raise [OF k before at] show ?thesis
    by (simp add: VpcPluralsightStack_part_003_def)
qed

lemma part_003_declared_without_env:
  "length (declarations (completed
     (VpcPluralsightStack_part_003 tk_lookup scope ident Undefined []))) = 28"
proof -
  have "length (map decl_sig (declarations
      (take 67 (VpcPluralsightStack_part_003_calls scope ident Undefined)))) = 28"
    by (simp only: part_003_sigs_before_nat) simp
  then show ?thesis by (simp add: part_003_without_env)
qed

lemma part_003_declared_with_env:
  "length (declarations (completed
     (VpcPluralsightStack_part_003 tk_lookup scope ident env_props []))) = 36"
proof -
  have "gives_env (Super Stack scope ident env_props)" by (simp add: env_props_def)
  then show ?thesis by (simp add: part_003_with_env part_003_declarations_length)
qed

lemma part_003_kinds_without_env:
  "set (declared_kinds (completed
     (VpcPluralsightStack_part_003 tk_lookup scope ident Undefined []))) =
   {VPC, SUBNET, ROUTE_TABLE, GATEWAY, SECURITY_GROUP, EC2_INSTANCE, VPN_OR_PEERING}"
  by (simp only: part_003_without_env outcome.simps declared_kinds_sig part_003_sigs_before_nat)
    auto

subsection \<open>The values the source writes\<close>





lemma transit_router_props:
  "map (\<lambda>d. (d_id d, d_props d))
     (of_class Instance (declarations (TransitVpcConstruct_calls scope ident props))) =
   [(''cisco-router-instance'',
     Rec [(''vpc'', Obj (scope @ [ident, ''transit-vpc''])),
          (''keyName'', Str (sshKeyPairName props)),
          (''privateIpAddress'', Str ''10.3.0.10''),
          (''vpcSubnets'', Rec [(''subnets'', Arr [Obj (scope @ [ident, ''transit-vpc-subnet''])])]),
          (''instanceType'', Lib ''new InstanceType'' [Str ''t2.medium'']),
          (''instanceName'', Str ''transit-csr''),
          (''machineImage'', Lib ''new LookupMachineImage'' [Rec
             [(''name'', Str ''Cisco Cloud Services Router (CSR) 1000V - BYOL for Maximum Performance'')]])])]"
  unfolding TransitVpcConstruct_calls_def Let_def
  by (simp add: declarations_def of_class_def)

lemma transit_prop_keys:
  "map (\<lambda>d. (d_id d, prop_keys d)) (declarations (TransitVpcConstruct_calls scope ident props)) =
   [(''transit-vpc'', [''vpcName'', ''cidr'', ''subnetConfiguration'']),
    (''transit-vpc-subnet'', [''vpcId'', ''availabilityZone'', ''cidrBlock'']),
    (''transit-vpc-internet-gateway'', [''tags'']),
    (''transit-vpc-igw-attachment'', [''vpcId'', ''internetGatewayId'']),
    (''transit-vpc-route-table'', [''vpcId'', ''tags'']),
    (''transit-route-table-default'', [''routeTableId'', ''destinationCidrBlock'', ''gatewayId'']),
    (''transit-subnet-route-table-assc'', [''routeTableId'', ''subnetId'']),
    (''transit-instance-sec-group'', [''vpc'', ''securityGroupName'']),
    (''cisco-router-instance'',
     [''vpc'', ''keyName'', ''privateIpAddress'', ''vpcSubnets'', ''instanceType'',
      ''instanceName'', ''machineImage'']),
    (''transit-instance-eip'', [''instanceId'']),
    (''transit-vpc-gateway'', [''type'']),
    (''transit-vpc-vpg-attachment'', [''vpcId'', ''vpnGatewayId'']),
    (''transit-shared-vpc-vpn-conn'', [''vpc'', ''ip'']),
    (''transitRouteProp'', [''vpnGatewayId'', ''routeTableIds'']),
    (''on-prem-customer-gateway-1'', [''tags'', ''bgpAsn'', ''type'', ''ipAddress'']),
    (''on-prem-customer-gateway-2'', [''tags'', ''bgpAsn'', ''type'', ''ipAddress'']),
    (''on-prem-vpg'', [''type'']),
    (''on-prem-vpc-transit-attachment'', [''vpcId'', ''vpnGatewayId'']),
    (''on-prem-1-vpn-connection'', [''vpc'', ''ip'']),
    (''on-prem-2-vpn-connection'', [''vpc'', ''ip''])]"
  unfolding TransitVpcConstruct_calls_def Let_def
  by (simp add: declarations_def prop_keys_def)

section \<open>The claims\<close>




text \<open>
  C2, as stated, fails for the application: the entry point imports the stack from
  \<^verbatim>\<open>../lib/vpc-pluralsight-stack\<close>, and the revision stored there declares neither a VPN or
  peering construct nor a flow log, even when no call raises.
\<close>

theorem C2_application_without_peering_and_flow_log:
  "VPN_OR_PEERING \<notin> set (declared_kinds (completed (app tk_ok)))
   \<and> FLOW_LOG \<notin> set (declared_kinds (completed (app tk_ok)))"
  by (simp add: app_completed_ok app_kinds)

text \<open>
  C2, amended. Constructing the application declares, when no call raises, at least one
  VPC, subnet, route table, gateway, security group and EC2 instance, and in no run a VPN
  construct, a peering connection or a flow log; the revision of the stack under
  \<^verbatim>\<open>src/lib\<close> is written to declare these six kinds for every scope and id. The complete
  revision of the stack is written to declare at least one resource of each of the eight
  kinds, its only VPN or peering construct being the VPC peering connection. A
  construction of it in which no call raises declares all eight kinds; one that stops at
  the NAT instance, as under a toolkit that needs an environment the stack was not given,
  declares the other seven and no flow log.
\<close>

theorem C2_declared_kinds:
  "set (declared_kinds (completed (app tk_ok))) =
     {VPC, SUBNET, ROUTE_TABLE, GATEWAY, SECURITY_GROUP, EC2_INSTANCE}
   \<and> set (declared_kinds (VpcPluralsightStack_lib_calls scope ident props)) =
     {VPC, SUBNET, ROUTE_TABLE, GATEWAY, SECURITY_GROUP, EC2_INSTANCE}
   \<and> set (declared_kinds (VpcPluralsightStack_part_003_calls scope ident props)) =
     {VPC, SUBNET, ROUTE_TABLE, GATEWAY, SECURITY_GROUP, EC2_INSTANCE, VPN_OR_PEERING, FLOW_LOG}
   \<and> filter (\<lambda>k. VPN_OR_PEERING \<in> set (kinds_of k))
        (declared_classes (VpcPluralsightStack_part_003_calls scope ident props)) =
      [CfnVPCPeeringConnection]
   \<and> VPN_OR_PEERING \<notin> set (declared_kinds (completed (app tk)))
   \<and> FLOW_LOG \<notin> set (declared_kinds (completed (app tk)))
   \<and> (failed (VpcPluralsightStack_part_003 tk scope ident props []) = None
      \<longrightarrow> set (declared_kinds (completed (VpcPluralsightStack_part_003 tk scope ident props []))) =
          {VPC, SUBNET, ROUTE_TABLE, GATEWAY, SECURITY_GROUP, EC2_INSTANCE, VPN_OR_PEERING,
           FLOW_LOG})
   \<and> set (declared_kinds (completed
        (VpcPluralsightStack_part_003 tk_lookup scope ident Undefined []))) =
     {VPC, SUBNET, ROUTE_TABLE, GATEWAY, SECURITY_GROUP, EC2_INSTANCE, VPN_OR_PEERING}"
proof -
  have a: "set (declared_kinds (completed (app tk_ok))) =
      {VPC, SUBNET, ROUTE_TABLE, GATEWAY, SECURITY_GROUP, EC2_INSTANCE}"
    by (simp only: app_completed_ok app_kinds)
  note l = lib_kinds [of scope ident props]
  note p = part_003_kinds [of scope ident props]
  note v = part_003_vpn_or_peering_classes [of scope ident props]
  obtain k where "completed (app tk) = take k app_calls"
    using run_completed_prefix [of app_calls tk "[]"] by (auto simp: app_def)
  then have "set (declared_kinds (completed (app tk))) \<subseteq> set (declared_kinds app_calls)"
    by (simp add: declared_kinds_take_subset)
  then have n: "VPN_OR_PEERING \<notin> set (declared_kinds (completed (app tk)))"
    and m: "FLOW_LOG \<notin> set (declared_kinds (completed (app tk)))"
    by (auto simp: app_kinds)
  have r: "failed (VpcPluralsightStack_part_003 tk scope ident props []) = None
    \<longrightarrow> set (declared_kinds (completed (VpcPluralsightStack_part_003 tk scope ident props []))) =
        {VPC, SUBNET, ROUTE_TABLE, GATEWAY, SECURITY_GROUP, EC2_INSTANCE, VPN_OR_PEERING,
         FLOW_LOG}"
    using run_failed_None [of tk "VpcPluralsightStack_part_003_calls scope ident props" "[]"] p
    by (simp add: VpcPluralsightStack_part_003_def)
  note s = part_003_kinds_without_env [of scope ident]
  from a l p v n m r s show ?thesis by (intro conjI)
qed

text \<open>A construction of the complete revision that runs to the end declares all eight kinds.\<close>

theorem C2_declared_kinds_witness:
  "failed (VpcPluralsightStack_part_003 tk_ok [] ''VpcPluralsightStack'' Undefined []) = None
   \<and> set (declared_kinds (completed
        (VpcPluralsightStack_part_003 tk_ok [] ''VpcPluralsightStack'' Undefined []))) =
     {VPC, SUBNET, ROUTE_TABLE, GATEWAY, SECURITY_GROUP, EC2_INSTANCE, VPN_OR_PEERING, FLOW_LOG}"
proof -
  have a: "failed (VpcPluralsightStack_part_003 tk_ok [] ''VpcPluralsightStack'' Undefined []) = None"
    by (simp add: VpcPluralsightStack_part_003_def run_tk_ok)
  with C2_declared_kinds
    [where scope = "[]" and ident = "''VpcPluralsightStack''" and props = Undefined and tk = tk_ok]
  have "set (declared_kinds (completed
      (VpcPluralsightStack_part_003 tk_ok [] ''VpcPluralsightStack'' Undefined []))) =
    {VPC, SUBNET, ROUTE_TABLE, GATEWAY, SECURITY_GROUP, EC2_INSTANCE, VPN_OR_PEERING, FLOW_LOG}"
    by blast
  with a show ?thesis by (intro conjI)
qed

text \<open>
  C4, as stated, fails: the constructor does not declare the same number of resources on
  every invocation. Under a toolkit that resolves the NAT image against the environment
  of the stack, the invocation without props declares 28 resources and the invocation
  with an \<^verbatim>\<open>env\<close> declares 36.
\<close>

theorem C4_number_of_declarations_varies:
  "length (declarations (completed
     (VpcPluralsightStack_part_003 tk_lookup [] ''VpcPluralsightStack'' Undefined []))) = 28
   \<and> length (declarations (completed
     (VpcPluralsightStack_part_003 tk_lookup [] ''VpcPluralsightStack'' env_props []))) = 36"
  by (simp only: part_003_declared_without_env part_003_declared_with_env)

text \<open>
  C4, amended. The constructor of the complete \<open>VpcPluralsightStack\<close> is written as one
  fixed, finite sequence of calls: after \<^verbatim>\<open>super(scope, id, props)\<close>, the calls of every
  invocation are those of one template, with \<^verbatim>\<open>this\<close> replaced by the path of the stack,
  and they hold 36 declarations of fixed classes and ids in a fixed order. Every
  invocation declares a prefix of these, in that order; an invocation in which no call
  raises makes all the calls and declares all 36.
\<close>

theorem C4_constructor_is_fixed_sequence:
  "VpcPluralsightStack_part_003_calls scope ident props =
     Super Stack scope ident props #
     map (rebase_call (scope @ [ident]))
       (tl (VpcPluralsightStack_part_003_calls [] ''this'' Undefined))
   \<and> length (declarations (VpcPluralsightStack_part_003_calls scope ident props)) = 36
   \<and> map decl_sig (declarations (VpcPluralsightStack_part_003_calls scope ident props)) =
     [(Vpc, ''PublicVpc''), (Subnet, ''PublicSubnet''), (CfnRouteTable, ''PublicRouteTable''),
      (CfnSubnetRouteTableAssociation, ''PublicRouteTableSubnetAssociation1''),
      (CfnInternetGateway, ''PublicInternetGateway''),
      (CfnVPCGatewayAttachment, ''PublicVpcIgwAttachment''),
      (CfnRoute, ''PublicInternetAccessRoute''), (SecurityGroup, ''PublicSecurityGroup''),
      (CfnKeyPair, ''ssh-keypair''), (Instance, ''public-ec2-instance''),
      (CfnEIP, ''public-elastic-ip''),
      (CfnEIPAssociation, ''public-elastic-ip-network-interface-assc''),
      (Vpc, ''SharedVpc''), (Subnet, ''DatabaseSubnet''), (CfnRouteTable, ''SharedRouteTable''),
      (CfnSubnetRouteTableAssociation, ''SharedRouteTableSubnetAssociation''),
      (SecurityGroup, ''DatabaseSecurityGroup''), (Instance, ''database-ec2-instance''),
      (CfnVPCPeeringConnection, ''PCX''), (CfnRoute, ''public-route-table-peering-route''),
      (CfnRoute, ''shared-route-table-peering-route''), (CfnInternetGateway, ''shared-igw''),
      (CfnVPCGatewayAttachment, ''SharedVpcIgwAttachment''), (Subnet, ''shared-nat-subnet''),
      (CfnRouteTable, ''nat-pub-route-table''), (CfnRoute, ''default-nat-route''),
      (CfnSubnetRouteTableAssociation, ''NATRouteTableSubnetAssociation''),
      (SecurityGroup, ''nat-security-group''), (Instance, ''nat-ec2-instance''),
      (CfnEIP, ''nat-eip''), (CfnRoute, ''shared-default-route''), (Role, ''LogsIMARole''),
      (LogGroup, ''public-vpc-accept-log-group''), (FlowLog, ''public-vpc-accept-flow-log''),
      (LogGroup, ''public-vpc-reject-log-group''), (FlowLog, ''public-vpc-reject-flow-log'')]
   \<and> (\<exists>n\<le>36. map decl_sig (declarations (completed
          (VpcPluralsightStack_part_003 tk scope ident props []))) =
        take n (map decl_sig (declarations (VpcPluralsightStack_part_003_calls scope ident props))))
   \<and> (failed (VpcPluralsightStack_part_003 tk scope ident props []) = None
      \<longrightarrow> completed (VpcPluralsightStack_part_003 tk scope ident props []) =
            VpcPluralsightStack_part_003_calls scope ident props
          \<and> length (declarations (completed
              (VpcPluralsightStack_part_003 tk scope ident props []))) = 36)"
proof -
  let ?cs = "VpcPluralsightStack_part_003_calls scope ident props"
  note t = part_003_template [of scope ident props]
  note l = part_003_declarations_length [of scope ident props]
  note s = part_003_sigs [of scope ident props]
  obtain n where n: "declarations (completed (run tk ?cs [])) = take n (declarations ?cs)"
    using run_declarations_prefix [of tk ?cs] by blast
  have "declarations (completed (run tk ?cs [])) = take (min n 36) (declarations ?cs)"
    using n l by (simp add: min_def)
  then have "map decl_sig (declarations (completed (run tk ?cs []))) =
      take (min n 36) (map decl_sig (declarations ?cs))"
    by (simp add: take_map)
  moreover have "min n 36 \<le> 36" by simp
  ultimately have p: "\<exists>n\<le>36. map decl_sig (declarations (completed
      (VpcPluralsightStack_part_003 tk scope ident props []))) =
      take n (map decl_sig (declarations ?cs))"
    unfolding VpcPluralsightStack_part_003_def by blast
  have r: "failed (VpcPluralsightStack_part_003 tk scope ident props []) = None
    \<longrightarrow> completed (VpcPluralsightStack_part_003 tk scope ident props []) = ?cs
        \<and> length (declarations (completed
            (VpcPluralsightStack_part_003 tk scope ident props []))) = 36"
    using run_failed_None [of tk ?cs "[]"] l
    by (simp add: VpcPluralsightStack_part_003_def)
  from t l s p r show ?thesis by (intro conjI)
qed

text \<open>An invocation in which no call raises: all 79 calls return and 36 resources are declared.\<close>

theorem C4_constructor_is_fixed_sequence_witness:
  "failed (VpcPluralsightStack_part_003 tk_ok [] ''VpcPluralsightStack'' Undefined []) = None
   \<and> length (completed
        (VpcPluralsightStack_part_003 tk_ok [] ''VpcPluralsightStack'' Undefined [])) = 79
   \<and> length (declarations (completed
        (VpcPluralsightStack_part_003 tk_ok [] ''VpcPluralsightStack'' Undefined []))) = 36"
proof -
  have a: "failed (VpcPluralsightStack_part_003 tk_ok [] ''VpcPluralsightStack'' Undefined []) = None"
    by (simp add: VpcPluralsightStack_part_003_def run_tk_ok)
  with C4_constructor_is_fixed_sequence
    [where scope = "[]" and ident = "''VpcPluralsightStack''" and props = Undefined and tk = tk_ok]
  have b: "completed (VpcPluralsightStack_part_003 tk_ok [] ''VpcPluralsightStack'' Undefined []) =
      VpcPluralsightStack_part_003_calls [] ''VpcPluralsightStack'' Undefined"
    and c: "length (declarations (completed
      (VpcPluralsightStack_part_003 tk_ok [] ''VpcPluralsightStack'' Undefined []))) = 36"
    by blast+
  from b have "length (completed
      (VpcPluralsightStack_part_003 tk_ok [] ''VpcPluralsightStack'' Undefined [])) = 79"
    by (simp only: part_003_length)
  with a c show ?thesis by (intro conjI)
qed

text \<open>
  C5. \<open>TransitVpcConstruct\<close> is never instantiated. In every run of the application, and in
  every run of the constructor of the complete stack, whatever the toolkit does, no call
  that is attempted is the \<^verbatim>\<open>super\<close> call of a construct class, and no declaration that is
  attempted is a transit VPC (10.3.0.0/16), the Cisco router instance, a VPN gateway, a VPN
  connection, a route propagation or a customer gateway. The constructor of
  \<open>TransitVpcConstruct\<close> itself starts with such a \<^verbatim>\<open>super\<close> call and declares ten such
  resources.
\<close>

theorem C5_transit_never_instantiated:
  "filter instantiates_construct (attempted (app tk)) = []
   \<and> filter transit_resource (declarations (attempted (app tk))) = []
   \<and> filter instantiates_construct
        (attempted (VpcPluralsightStack_part_003 tk scope ident props [])) = []
   \<and> filter transit_resource
        (declarations (attempted (VpcPluralsightStack_part_003 tk scope ident props []))) = []
   \<and> instantiates_construct (hd (TransitVpcConstruct_calls scope' ident' props'))
   \<and> length (filter transit_resource
        (declarations (TransitVpcConstruct_calls scope' ident' props'))) = 10"
proof -
  obtain k where k: "attempted (app tk) = take k app_calls"
    using run_attempted_prefix [of app_calls tk "[]"] by (auto simp: app_def)
  obtain n where n: "attempted (VpcPluralsightStack_part_003 tk scope ident props []) =
      take n (VpcPluralsightStack_part_003_calls scope ident props)"
    using run_attempted_prefix [of "VpcPluralsightStack_part_003_calls scope ident props" tk "[]"]
    by (auto simp: VpcPluralsightStack_part_003_def)
  have a1: "filter instantiates_construct (attempted (app tk)) = []"
    unfolding k by (rule filter_take [OF app_no_construct])
  have a2: "filter transit_resource (declarations (attempted (app tk))) = []"
    unfolding k by (rule filter_declarations_take [OF app_no_transit_resource])
  have s1: "filter instantiates_construct
      (attempted (VpcPluralsightStack_part_003 tk scope ident props [])) = []"
    unfolding n by (rule filter_take [OF part_003_no_construct])
  have s2: "filter transit_resource
      (declarations (attempted (VpcPluralsightStack_part_003 tk scope ident props []))) = []"
    unfolding n by (rule filter_declarations_take [OF part_003_no_transit_resource])
  have t1: "instantiates_construct (hd (TransitVpcConstruct_calls scope' ident' props'))"
    by (simp add: transit_starts_with_super)
  have "length (map decl_sig (filter transit_resource
      (declarations (TransitVpcConstruct_calls scope' ident' props')))) = 10"
    by (simp only: transit_resources) simp
  then have t2: "length (filter transit_resource
      (declarations (TransitVpcConstruct_calls scope' ident' props'))) = 10"
    by simp
  from a1 a2 s1 s2 t1 t2 show ?thesis by blast
qed

text \<open>
  C6. The two routes of the stack that carry a \<^verbatim>\<open>vpcPeeringConnectionId\<close> are the route
  to 10.2.2.0/24 in the public route table and the route to 10.1.254.0/24 in the shared
  route table. Both set the field to the member \<^verbatim>\<open>peerOwnerId\<close> of the peering
  connection \<^verbatim>\<open>PCX\<close>, which is not a read of the connection's own id; the connection is
  declared once, and no peer owner id is passed to it.
\<close>

theorem C6_peering_routes_use_peerOwnerId:
  "map (\<lambda>d. (decl_sig d, prop_of d ''routeTableId'', prop_of d ''destinationCidrBlock'',
              prop_of d ''vpcPeeringConnectionId''))
     (with_prop ''vpcPeeringConnectionId''
        (declarations (VpcPluralsightStack_part_003_calls scope ident props))) =
   [((CfnRoute, ''public-route-table-peering-route''),
     Some (Member (scope @ [ident, ''PublicRouteTable'']) ''attrRouteTableId''),
     Some (Str ''10.2.2.0/24''),
     Some (Member (scope @ [ident, ''PCX'']) ''peerOwnerId'')),
    ((CfnRoute, ''shared-route-table-peering-route''),
     Some (Member (scope @ [ident, ''SharedRouteTable'']) ''attrRouteTableId''),
     Some (Str ''10.1.254.0/24''),
     Some (Member (scope @ [ident, ''PCX'']) ''peerOwnerId''))]
   \<and> \<not> is_own_id (scope @ [ident, ''PCX'']) (Member (scope @ [ident, ''PCX'']) ''peerOwnerId'')
   \<and> map (\<lambda>d. (d_path d, prop_of d ''peerOwnerId''))
        (of_class CfnVPCPeeringConnection
           (declarations (VpcPluralsightStack_part_003_calls scope ident props))) =
      [(scope @ [ident, ''PCX''], None)]"
proof (intro conjI)
  show "\<not> is_own_id (scope @ [ident, ''PCX'']) (Member (scope @ [ident, ''PCX'']) ''peerOwnerId'')"
    by (simp add: is_own_id_def)
  show "map (\<lambda>d. (d_path d, prop_of d ''peerOwnerId''))
          (of_class CfnVPCPeeringConnection
             (declarations (VpcPluralsightStack_part_003_calls scope ident props))) =
        [(scope @ [ident, ''PCX''], None)]"
    by (simp add: part_003_pcx d_path_def prop_of_def)
qed (rule part_003_peering_routes)

text \<open>
  C7. Within each constructor (the two revisions of the stack, and \<open>TransitVpcConstruct\<close>),
  the declarations have pairwise distinct (scope, id) pairs: no id is used twice under one
  scope, and no constructor call is made twice for one id. The stack declares 36 resources
  (18 in the revision under \<^verbatim>\<open>src/lib\<close>), the transit construct 20.
\<close>

theorem C7_construct_ids_distinct:
  "distinct (map decl_key (declarations (VpcPluralsightStack_part_003_calls scope ident props)))
   \<and> distinct (map decl_key (declarations (VpcPluralsightStack_lib_calls scope ident props)))
   \<and> distinct (map decl_key (declarations (TransitVpcConstruct_calls scope' ident' props')))
   \<and> length (declarations (VpcPluralsightStack_part_003_calls scope ident props)) = 36
   \<and> length (declarations (VpcPluralsightStack_lib_calls scope ident props)) = 18
   \<and> length (declarations (TransitVpcConstruct_calls scope' ident' props')) = 20"
proof -
  have "length (map decl_sig (declarations (VpcPluralsightStack_lib_calls scope ident props))) = 18"
    by (simp only: lib_sigs) simp
  then have l: "length (declarations (VpcPluralsightStack_lib_calls scope ident props)) = 18"
    by simp
  have "length (map decl_sig (declarations (TransitVpcConstruct_calls scope' ident' props'))) = 20"
    by (simp only: transit_sigs) simp
  then have t: "length (declarations (TransitVpcConstruct_calls scope' ident' props')) = 20"
    by simp
  from l t part_003_declarations_length [of scope ident props]
    part_003_keys_distinct [of scope ident props] lib_keys_distinct [of scope ident props]
    transit_keys_distinct [of scope' ident' props']
  show ?thesis by blast
qed

text \<open>
  C8. The stack constructor has no retry and no recovery. If the call at position \<open>k\<close> is
  the first to raise, with error \<open>e\<close>, then the constructor ends with \<open>e\<close> raised by that
  call; the calls before it, and they only, have returned, so the resources declared
  before it stay declared and none after it is declared; the calls attempted are the
  first \<open>k + 1\<close> of the constructor, each once, and no resource is declared twice among
  them.
\<close>

theorem C8_first_error_ends_constructor:
  assumes "k < length (VpcPluralsightStack_part_003_calls scope ident props)"
    and "\<forall>j<k. tk (done @ take j (VpcPluralsightStack_part_003_calls scope ident props))
                  (VpcPluralsightStack_part_003_calls scope ident props ! j) = None"
    and "tk (done @ take k (VpcPluralsightStack_part_003_calls scope ident props))
            (VpcPluralsightStack_part_003_calls scope ident props ! k) = Some e"
  shows "VpcPluralsightStack_part_003 tk scope ident props done =
           \<lparr>completed = done @ take k (VpcPluralsightStack_part_003_calls scope ident props),
            failed = Some (VpcPluralsightStack_part_003_calls scope ident props ! k, e)\<rparr>
         \<and> attempted (VpcPluralsightStack_part_003 tk scope ident props done) =
           done @ take (Suc k) (VpcPluralsightStack_part_003_calls scope ident props)
         \<and> declarations (completed (VpcPluralsightStack_part_003 tk scope ident props done)) =
           declarations done @
           declarations (take k (VpcPluralsightStack_part_003_calls scope ident props))
         \<and> distinct (map decl_key (declarations
             (take (Suc k) (VpcPluralsightStack_part_003_calls scope ident props))))"
proof -
  let ?cs = "VpcPluralsightStack_part_003_calls scope ident props"
  have r: "VpcPluralsightStack_part_003 tk scope ident props done =
      \<lparr>completed = done @ take k ?cs, failed = Some (?cs ! k, e)\<rparr>"
    unfolding VpcPluralsightStack_part_003_def
    using assms by (rule run_first_raise)
  have a: "attempted (VpcPluralsightStack_part_003 tk scope ident props done) =
      done @ take (Suc k) ?cs"
    using assms(1) by (simp add: r attempted_def take_Suc_conv_app_nth)
  have d: "declarations (completed (VpcPluralsightStack_part_003 tk scope ident props done)) =
      declarations done @ declarations (take k ?cs)"
    by (simp add: r declarations_append)
  have u: "distinct (map decl_key (declarations (take (Suc k) ?cs)))"
    by (rule distinct_keys_take [OF part_003_keys_distinct])
  from r a d u show ?thesis by blast
qed

text \<open>
  A run in which the toolkit raises on the call made after 28 calls have returned, the
  declaration of the shared VPC: the constructor ends there, with the twelve resources of
  the public VPC declared.
\<close>

theorem C8_first_error_ends_constructor_witness:
  "28 < length (VpcPluralsightStack_part_003_calls [] ''VpcPluralsightStack'' Undefined)
   \<and> list_all
        (\<lambda>j. tk_fail_at 28 (Error ''boom'')
          ([] @ take j (VpcPluralsightStack_part_003_calls [] ''VpcPluralsightStack'' Undefined))
          (VpcPluralsightStack_part_003_calls [] ''VpcPluralsightStack'' Undefined ! j) = None)
        [0..<28]
   \<and> tk_fail_at 28 (Error ''boom'')
        ([] @ take 28 (VpcPluralsightStack_part_003_calls [] ''VpcPluralsightStack'' Undefined))
        (VpcPluralsightStack_part_003_calls [] ''VpcPluralsightStack'' Undefined ! 28) =
        Some (Error ''boom'')
   \<and> failed (VpcPluralsightStack_part_003 (tk_fail_at 28 (Error ''boom'')) []
        ''VpcPluralsightStack'' Undefined []) =
      Some (New Vpc [''VpcPluralsightStack''] ''SharedVpc'' (Rec
              [(''vpcName'', Str ''shared-vpc''), (''cidr'', Str ''10.2.0.0/16''),
               (''subnetConfiguration'', Arr [])]),
            Error ''boom'')
   \<and> length (completed (VpcPluralsightStack_part_003 (tk_fail_at 28 (Error ''boom'')) []
        ''VpcPluralsightStack'' Undefined [])) = 28"
proof -
  let ?cs = "VpcPluralsightStack_part_003_calls [] ''VpcPluralsightStack'' Undefined"
  let ?tk = "tk_fail_at 28 (Error ''boom'')"
  have h1: "28 < length ?cs" by (simp add: part_003_length)
  have h2: "\<forall>j<28. ?tk ([] @ take j ?cs) (?cs ! j) = None"
    by (simp add: tk_fail_at_def part_003_length)
  have h3: "?tk ([] @ take 28 ?cs) (?cs ! 28) = Some (Error ''boom'')"
    by (simp add: tk_fail_at_def part_003_length)
  have c: "?cs ! 28 = New Vpc [''VpcPluralsightStack''] ''SharedVpc'' (Rec
      [(''vpcName'', Str ''shared-vpc''), (''cidr'', Str ''10.2.0.0/16''),
       (''subnetConfiguration'', Arr [])])"
    by (rule part_003_call_28)
  have h2': "list_all (\<lambda>j. ?tk ([] @ take j ?cs) (?cs ! j) = None) [0..<28]"
    using h2 by (simp add: list_all_iff)
  have r: "VpcPluralsightStack_part_003 ?tk [] ''VpcPluralsightStack'' Undefined [] =
      \<lparr>completed = [] @ take 28 ?cs, failed = Some (?cs ! 28, Error ''boom'')\<rparr>"
    using C8_first_error_ends_constructor [OF h1 h2 h3] by blast
  have f: "failed (VpcPluralsightStack_part_003 ?tk [] ''VpcPluralsightStack'' Undefined []) =
      Some (?cs ! 28, Error ''boom'')"
    by (simp only: r outcome.simps)
  have l: "length (completed
      (VpcPluralsightStack_part_003 ?tk [] ''VpcPluralsightStack'' Undefined [])) = 28"
    by (simp only: r outcome.simps) (simp add: part_003_length)
  from h1 h2' h3 f l show ?thesis unfolding c by blast
qed

text \<open>
  C9. No operation of the code fetches a VPN configuration or configures the router. The
  constructor of \<open>TransitVpcConstruct\<close> declares the Cisco router instance and the VPN
  connections. The props of the instance are exactly a VPC, the key name it was given,
  an address, a subnet, an instance type, a name and a machine image looked up by name:
  no \<^verbatim>\<open>userData\<close> or \<^verbatim>\<open>init\<close> payload, at the top or nested. The props of a VPN
  connection are exactly a VPC and a peer address. None of the twenty declarations has a
  key other than those listed. The only methods the constructor calls are
  \<^verbatim>\<open>applyRemovalPolicy\<close> and \<^verbatim>\<open>addIngressRule\<close>, and on the router and on the VPN
  connection to the shared VPC only the former; the stack calls, besides these two,
  \<^verbatim>\<open>addToPolicy\<close> and \<^verbatim>\<open>addFlowLog\<close>.
\<close>

theorem C9_no_router_configuration:
  "map (\<lambda>d. (d_id d, d_props d))
     (of_class Instance (declarations (TransitVpcConstruct_calls scope ident props))) =
     [(''cisco-router-instance'',
       Rec [(''vpc'', Obj (scope @ [ident, ''transit-vpc''])),
            (''keyName'', Str (sshKeyPairName props)),
            (''privateIpAddress'', Str ''10.3.0.10''),
            (''vpcSubnets'', Rec [(''subnets'', Arr [Obj (scope @ [ident, ''transit-vpc-subnet''])])]),
            (''instanceType'', Lib ''new InstanceType'' [Str ''t2.medium'']),
            (''instanceName'', Str ''transit-csr''),
            (''machineImage'', Lib ''new LookupMachineImage'' [Rec
               [(''name'', Str ''Cisco Cloud Services Router (CSR) 1000V - BYOL for Maximum Performance'')]])])]
   \<and> map (\<lambda>d. (d_id d, prop_keys d)) (declarations (TransitVpcConstruct_calls scope ident props)) =
     [(''transit-vpc'', [''vpcName'', ''cidr'', ''subnetConfiguration'']),
      (''transit-vpc-subnet'', [''vpcId'', ''availabilityZone'', ''cidrBlock'']),
      (''transit-vpc-internet-gateway'', [''tags'']),
      (''transit-vpc-igw-attachment'', [''vpcId'', ''internetGatewayId'']),
      (''transit-vpc-route-table'', [''vpcId'', ''tags'']),
      (''transit-route-table-default'', [''routeTableId'', ''destinationCidrBlock'', ''gatewayId'']),
      (''transit-subnet-route-table-assc'', [''routeTableId'', ''subnetId'']),
      (''transit-instance-sec-group'', [''vpc'', ''securityGroupName'']),
      (''cisco-router-instance'',
       [''vpc'', ''keyName'', ''privateIpAddress'', ''vpcSubnets'', ''instanceType'',
        ''instanceName'', ''machineImage'']),
      (''transit-instance-eip'', [''instanceId'']),
      (''transit-vpc-gateway'', [''type'']),
      (''transit-vpc-vpg-attachment'', [''vpcId'', ''vpnGatewayId'']),
      (''transit-shared-vpc-vpn-conn'', [''vpc'', ''ip'']),
      (''transitRouteProp'', [''vpnGatewayId'', ''routeTableIds'']),
      (''on-prem-customer-gateway-1'', [''tags'', ''bgpAsn'', ''type'', ''ipAddress'']),
      (''on-prem-customer-gateway-2'', [''tags'', ''bgpAsn'', ''type'', ''ipAddress'']),
      (''on-prem-vpg'', [''type'']),
      (''on-prem-vpc-transit-attachment'', [''vpcId'', ''vpnGatewayId'']),
      (''on-prem-1-vpn-connection'', [''vpc'', ''ip'']),
      (''on-prem-2-vpn-connection'', [''vpc'', ''ip''])]
   \<and> map (\<lambda>d. (d_id d, prop_keys d))
     (of_class Instance (declarations (TransitVpcConstruct_calls scope ident props))) =
     [(''cisco-router-instance'',
       [''vpc'', ''keyName'', ''privateIpAddress'', ''vpcSubnets'', ''instanceType'',
        ''instanceName'', ''machineImage''])]
   \<and> list_all (\<lambda>p. ''userData'' \<notin> set (snd p) \<and> ''init'' \<notin> set (snd p))
       (map (\<lambda>d. (d_id d, prop_keys d))
          (of_class Instance (declarations (TransitVpcConstruct_calls scope ident props))))
   \<and> map (\<lambda>d. (d_id d, d_props d))
       (of_class VpnConnection (declarations (TransitVpcConstruct_calls scope ident props))) =
     [(''transit-shared-vpc-vpn-conn'',
       Rec [(''vpc'', Obj (sharedVpc props)),
            (''ip'', Member (scope @ [ident, ''cisco-router-instance'']) ''instancePublicIp'')]),
      (''on-prem-1-vpn-connection'',
       Rec [(''vpc'', Obj (scope @ [ident, ''transit-vpc''])),
            (''ip'', Member (scope @ [ident, ''on-prem-customer-gateway-1'']) ''ipAddress'')]),
      (''on-prem-2-vpn-connection'',
       Rec [(''vpc'', Obj (scope @ [ident, ''transit-vpc''])),
            (''ip'', Member (scope @ [ident, ''on-prem-customer-gateway-2'']) ''ipAddress'')])]
   \<and> set (methods_used (TransitVpcConstruct_calls scope ident props)) =
     {''addIngressRule'', ''applyRemovalPolicy''}
   \<and> methods_on (scope @ [ident, ''cisco-router-instance''])
       (TransitVpcConstruct_calls scope ident props) = [''applyRemovalPolicy'']
   \<and> methods_on (scope @ [ident, ''transit-shared-vpc-vpn-conn''])
       (TransitVpcConstruct_calls scope ident props) = [''applyRemovalPolicy'']
   \<and> set (methods_used (VpcPluralsightStack_part_003_calls scope' ident' props')) =
     {''addIngressRule'', ''applyRemovalPolicy'', ''addToPolicy'', ''addFlowLog''}
   \<and> set (methods_used (VpcPluralsightStack_lib_calls scope' ident' props')) =
     {''addIngressRule'', ''applyRemovalPolicy''}"
proof (intro conjI)
  show "map (\<lambda>d. (d_id d, d_props d))
          (of_class Instance (declarations (TransitVpcConstruct_calls scope ident props))) =
        [(''cisco-router-instance'',
          Rec [(''vpc'', Obj (scope @ [ident, ''transit-vpc''])),
               (''keyName'', Str (sshKeyPairName props)),
               (''privateIpAddress'', Str ''10.3.0.10''),
               (''vpcSubnets'', Rec [(''subnets'', Arr [Obj (scope @ [ident, ''transit-vpc-subnet''])])]),
               (''instanceType'', Lib ''new InstanceType'' [Str ''t2.medium'']),
               (''instanceName'', Str ''transit-csr''),
               (''machineImage'', Lib ''new LookupMachineImage'' [Rec
                  [(''name'', Str ''Cisco Cloud Services Router (CSR) 1000V - BYOL for Maximum Performance'')]])])]"
    by (rule transit_router_props)
  show "map (\<lambda>d. (d_id d, prop_keys d))
          (declarations (TransitVpcConstruct_calls scope ident props)) =
        [(''transit-vpc'', [''vpcName'', ''cidr'', ''subnetConfiguration'']),
         (''transit-vpc-subnet'', [''vpcId'', ''availabilityZone'', ''cidrBlock'']),
         (''transit-vpc-internet-gateway'', [''tags'']),
         (''transit-vpc-igw-attachment'', [''vpcId'', ''internetGatewayId'']),
         (''transit-vpc-route-table'', [''vpcId'', ''tags'']),
         (''transit-route-table-default'', [''routeTableId'', ''destinationCidrBlock'', ''gatewayId'']),
         (''transit-subnet-route-table-assc'', [''routeTableId'', ''subnetId'']),
         (''transit-instance-sec-group'', [''vpc'', ''securityGroupName'']),
         (''cisco-router-instance'',
          [''vpc'', ''keyName'', ''privateIpAddress'', ''vpcSubnets'', ''instanceType'',
           ''instanceName'', ''machineImage'']),
         (''transit-instance-eip'', [''instanceId'']),
         (''transit-vpc-gateway'', [''type'']),
         (''transit-vpc-vpg-attachment'', [''vpcId'', ''vpnGatewayId'']),
         (''transit-shared-vpc-vpn-conn'', [''vpc'', ''ip'']),
         (''transitRouteProp'', [''vpnGatewayId'', ''routeTableIds'']),
         (''on-prem-customer-gateway-1'', [''tags'', ''bgpAsn'', ''type'', ''ipAddress'']),
         (''on-prem-customer-gateway-2'', [''tags'', ''bgpAsn'', ''type'', ''ipAddress'']),
         (''on-prem-vpg'', [''type'']),
         (''on-prem-vpc-transit-attachment'', [''vpcId'', ''vpnGatewayId'']),
         (''on-prem-1-vpn-connection'', [''vpc'', ''ip'']),
         (''on-prem-2-vpn-connection'', [''vpc'', ''ip''])]"
    by (rule transit_prop_keys)
  show "list_all (\<lambda>p. ''userData'' \<notin> set (snd p) \<and> ''init'' \<notin> set (snd p))
          (map (\<lambda>d. (d_id d, prop_keys d))
             (of_class Instance (declarations (TransitVpcConstruct_calls scope ident props))))"
    by (simp only: transit_instances) simp
  show "map (\<lambda>d. (d_id d, prop_keys d))
          (of_class Instance (declarations (TransitVpcConstruct_calls scope ident props))) =
        [(''cisco-router-instance'',
          [''vpc'', ''keyName'', ''privateIpAddress'', ''vpcSubnets'', ''instanceType'',
           ''instanceName'', ''machineImage''])]"
    by (rule transit_instances)
  show "set (methods_used (TransitVpcConstruct_calls scope ident props)) =
        {''addIngressRule'', ''applyRemovalPolicy''}"
    by (rule transit_methods_used)
  show "methods_on (scope @ [ident, ''cisco-router-instance''])
          (TransitVpcConstruct_calls scope ident props) = [''applyRemovalPolicy'']"
    by (rule transit_methods_on_router)
  show "methods_on (scope @ [ident, ''transit-shared-vpc-vpn-conn''])
          (TransitVpcConstruct_calls scope ident props) = [''applyRemovalPolicy'']"
    by (rule transit_methods_on_vpn)
  show "set (methods_used (VpcPluralsightStack_part_003_calls scope' ident' props')) =
        {''addIngressRule'', ''applyRemovalPolicy'', ''addToPolicy'', ''addFlowLog''}"
    by (rule part_003_methods_used)
  show "set (methods_used (VpcPluralsightStack_lib_calls scope' ident' props')) =
        {''addIngressRule'', ''applyRemovalPolicy''}"
    by (rule lib_methods_used)
qed (rule transit_vpn_connections)

text \<open>
  C10. Every subnet that the stack declares has a CIDR block inside the CIDR block of the
  VPC it names: 10.1.254.0/24 in 10.1.0.0/16, and 10.2.2.0/24 and 10.2.254.0/24 in
  10.2.0.0/16 (the first two in the revision under \<^verbatim>\<open>src/lib\<close>, which has two subnets).
  The one peering connection joins two VPCs whose blocks, 10.1.0.0/16 and 10.2.0.0/16,
  are disjoint address ranges.
\<close>

theorem C10_subnets_within_vpcs_and_peers_disjoint:
  "subnet_blocks (declarations (VpcPluralsightStack_part_003_calls scope ident props)) =
     [(Some (Str ''10.1.254.0/24''), Some (Str ''10.1.0.0/16'')),
      (Some (Str ''10.2.2.0/24''), Some (Str ''10.2.0.0/16'')),
      (Some (Str ''10.2.254.0/24''), Some (Str ''10.2.0.0/16''))]
   \<and> list_all (subnet_within_vpc (declarations (VpcPluralsightStack_part_003_calls scope ident props)))
       (of_class Subnet (declarations (VpcPluralsightStack_part_003_calls scope ident props)))
   \<and> length (of_class Subnet (declarations (VpcPluralsightStack_lib_calls scope ident props))) = 2
   \<and> list_all (subnet_within_vpc (declarations (VpcPluralsightStack_lib_calls scope ident props)))
       (of_class Subnet (declarations (VpcPluralsightStack_lib_calls scope ident props)))
   \<and> length (of_class CfnVPCPeeringConnection
       (declarations (VpcPluralsightStack_part_003_calls scope ident props))) = 1
   \<and> list_all (peers_disjoint (declarations (VpcPluralsightStack_part_003_calls scope ident props)))
       (of_class CfnVPCPeeringConnection
          (declarations (VpcPluralsightStack_part_003_calls scope ident props)))
   \<and> map (\<lambda>s. map_option (\<lambda>c. (cidr_first c, cidr_last c)) (parse_cidr s))
       [''10.1.0.0/16'', ''10.1.254.0/24'', ''10.2.0.0/16'', ''10.2.2.0/24'', ''10.2.254.0/24''] =
     [Some (167837696, 167903231), Some (167902720, 167902975),
      Some (167903232, 167968767), Some (167903744, 167903999),
      Some (167968256, 167968511)]"
proof (intro conjI)
  show "subnet_blocks (declarations (VpcPluralsightStack_part_003_calls scope ident props)) =
        [(Some (Str ''10.1.254.0/24''), Some (Str ''10.1.0.0/16'')),
         (Some (Str ''10.2.2.0/24''), Some (Str ''10.2.0.0/16'')),
         (Some (Str ''10.2.254.0/24''), Some (Str ''10.2.0.0/16''))]"
    by (rule part_003_subnet_blocks)
  show "list_all (subnet_within_vpc (declarations (VpcPluralsightStack_part_003_calls scope ident props)))
          (of_class Subnet (declarations (VpcPluralsightStack_part_003_calls scope ident props)))"
    by (rule part_003_subnets_within)
  show "length (of_class Subnet (declarations (VpcPluralsightStack_lib_calls scope ident props))) = 2"
    by (simp add: lib_subnets)
  show "list_all (subnet_within_vpc (declarations (VpcPluralsightStack_lib_calls scope ident props)))
          (of_class Subnet (declarations (VpcPluralsightStack_lib_calls scope ident props)))"
    by (rule lib_subnets_within)
  show "length (of_class CfnVPCPeeringConnection
          (declarations (VpcPluralsightStack_part_003_calls scope ident props))) = 1"
    by (simp add: part_003_pcx)
  show "list_all (peers_disjoint (declarations (VpcPluralsightStack_part_003_calls scope ident props)))
          (of_class CfnVPCPeeringConnection
             (declarations (VpcPluralsightStack_part_003_calls scope ident props)))"
    by (rule part_003_peers_disjoint)
qed (rule block_ranges)

end
